theory Spec2Isabelle
  imports Complex_Main
begin

section \<open>JavaScript numbers and strings\<close>

text \<open>
  A JavaScript \<^verbatim>\<open>number\<close> is modelled as an exact real, or one of the three special
  values of IEEE 754 arithmetic. Rounding to 64-bit precision, overflow and underflow of
  finite arithmetic (a literal such as \<^verbatim>\<open>1e-324\<close> stays a non-zero real) and the sign of
  zero are not modelled. A string is a \<^typ>\<open>string\<close>; text
  outside ASCII is read as its UTF-8 bytes.
\<close>

datatype number = Num real | Infinity | NegInfinity | NaN

fun number_plus :: "number \<Rightarrow> number \<Rightarrow> number" where
  "number_plus NaN b = NaN"
| "number_plus a NaN = NaN"
| "number_plus (Num a) (Num b) = Num (a + b)"
| "number_plus (Num a) b = b"
| "number_plus a (Num b) = a"
| "number_plus Infinity Infinity = Infinity"
| "number_plus NegInfinity NegInfinity = NegInfinity"
| "number_plus Infinity NegInfinity = NaN"
| "number_plus NegInfinity Infinity = NaN"

fun number_uminus :: "number \<Rightarrow> number" where
  "number_uminus (Num a) = Num (- a)"
| "number_uminus Infinity = NegInfinity"
| "number_uminus NegInfinity = Infinity"
| "number_uminus NaN = NaN"

fun number_divide :: "number \<Rightarrow> number \<Rightarrow> number" where
  "number_divide NaN b = NaN"
| "number_divide a NaN = NaN"
| "number_divide (Num a) (Num b) =
     (if b \<noteq> 0 then Num (a / b)
      else if 0 < a then Infinity else if a < 0 then NegInfinity else NaN)"
| "number_divide (Num a) b = Num 0"
| "number_divide Infinity (Num b) = (if b < 0 then NegInfinity else Infinity)"
| "number_divide NegInfinity (Num b) = (if b < 0 then Infinity else NegInfinity)"
| "number_divide a b = NaN"

instantiation number :: "{plus, minus, uminus, inverse}"
begin

definition plus_number :: "number \<Rightarrow> number \<Rightarrow> number" where
  "plus_number a b = number_plus a b"

definition uminus_number :: "number \<Rightarrow> number" where
  "uminus_number a = number_uminus a"

definition minus_number :: "number \<Rightarrow> number \<Rightarrow> number" where
  "minus_number a b = number_plus a (number_uminus b)"

definition divide_number :: "number \<Rightarrow> number \<Rightarrow> number" where
  "divide_number a b = number_divide a b"

definition inverse_number :: "number \<Rightarrow> number" where
  "inverse_number a = number_divide (Num 1) a"

instance ..

end

definition isNaN :: "number \<Rightarrow> bool" where
  "isNaN n = (n = NaN)"

definition startsWith :: "string \<Rightarrow> string \<Rightarrow> bool" where
  "startsWith s p = (take (length p) s = p)"

subsection \<open>The built-in \<^verbatim>\<open>parseFloat\<close>\<close>

text \<open>
  \<^verbatim>\<open>parseFloat\<close> skips leading white space, reads an optional sign, and then the
  longest prefix that is \<^verbatim>\<open>Infinity\<close> or a decimal literal (digits, an optional
  fraction, an optional exponent). What follows the prefix is ignored; with no such
  prefix the result is \<^verbatim>\<open>NaN\<close>.
\<close>

definition whiteSpaceLength :: "string \<Rightarrow> nat" where
  "whiteSpaceLength s =
     (if s \<noteq> [] \<and> hd s \<in> set [CHR 0x09, CHR 0x0A, CHR 0x0B, CHR 0x0C, CHR 0x0D, CHR 0x20] then 1
      else if startsWith s [CHR 0xC2, CHR 0xA0] then 2
      else if startsWith s [CHR 0xE1, CHR 0x9A, CHR 0x80] then 3
      else if startsWith s [CHR 0xE2, CHR 0x80] \<and> 2 < length s \<and>
              ((0x80::nat) \<le> of_char (s ! 2) \<and> (of_char (s ! 2) :: nat) \<le> 0x8A
               \<or> s ! 2 \<in> set [CHR 0xA8, CHR 0xA9, CHR 0xAF]) then 3
      else if startsWith s [CHR 0xE2, CHR 0x81, CHR 0x9F] then 3
      else if startsWith s [CHR 0xE3, CHR 0x80, CHR 0x80] then 3
      else if startsWith s [CHR 0xEF, CHR 0xBB, CHR 0xBF] then 3
      else 0)"

fun skipWhiteSpace :: "string \<Rightarrow> string" where
  "skipWhiteSpace [] = []"
| "skipWhiteSpace (c # cs) =
     (if whiteSpaceLength (c # cs) = 0 then c # cs
      else skipWhiteSpace (drop (whiteSpaceLength (c # cs) - 1) cs))"

definition isDigit :: "char \<Rightarrow> bool" where
  "isDigit c = (c \<in> set ''0123456789'')"

definition digitsValue :: "string \<Rightarrow> nat" where
  "digitsValue ds = foldl (\<lambda>acc c. acc * 10 + (of_char c - 48)) 0 ds"

definition readSign :: "string \<Rightarrow> bool \<times> string" where
  "readSign s =
     (case s of
        [] \<Rightarrow> (False, [])
      | c # r \<Rightarrow> if c = CHR ''-'' then (True, r) else if c = CHR ''+'' then (False, r) else (False, s))"

definition exponentPart :: "string \<Rightarrow> int" where
  "exponentPart s =
     (case s of
        [] \<Rightarrow> 0
      | c # r \<Rightarrow>
          if c = CHR ''e'' \<or> c = CHR ''E'' then
            (let (neg, r') = readSign r; ds = takeWhile isDigit r'
             in if ds = [] then 0
                else if neg then - int (digitsValue ds) else int (digitsValue ds))
          else 0)"

definition scale10 :: "real \<Rightarrow> int \<Rightarrow> real" where
  "scale10 m e = (if 0 \<le> e then m * 10 ^ nat e else m / 10 ^ nat (- e))"

definition strDecimalLiteral :: "string \<Rightarrow> real option" where
  "strDecimalLiteral s =
     (let ip = takeWhile isDigit s; r1 = dropWhile isDigit s;
          dot = (r1 \<noteq> [] \<and> hd r1 = CHR ''.'');
          fp = (if dot then takeWhile isDigit (tl r1) else []);
          r2 = (if dot then dropWhile isDigit (tl r1) else r1)
      in if ip = [] \<and> fp = [] then None
         else Some (scale10 (real (digitsValue ip) + real (digitsValue fp) / 10 ^ length fp)
                            (exponentPart r2)))"

definition parseFloat :: "string \<Rightarrow> number" where
  "parseFloat s =
     (let (neg, r) = readSign (skipWhiteSpace s)
      in if startsWith r ''Infinity'' then (if neg then NegInfinity else Infinity)
         else (case strDecimalLiteral r of
                 None \<Rightarrow> NaN
               | Some v \<Rightarrow> Num (if neg then - v else v)))"

section \<open>The diagram data model\<close>

text \<open>
  The interfaces \<^verbatim>\<open>DiagramComponent\<close>, \<^verbatim>\<open>DiagramConnection\<close> and \<^verbatim>\<open>DiagramData\<close>.
  The data is the result of \<^verbatim>\<open>JSON.parse\<close> under an unchecked cast, so the \<^verbatim>\<open>type\<close>
  and \<^verbatim>\<open>state\<close> fields hold whatever string the reply carried; an optional field that
  is absent is \<^const>\<open>None\<close>.
\<close>

record DiagramComponent =
  comp_id :: string
  comp_type :: string
  comp_x :: number
  comp_y :: number
  comp_label :: string
  comp_state :: "string option"
  comp_width :: "number option"

record DiagramConnection =
  conn_from :: string
  conn_to :: string

record DiagramData =
  diagramType :: "string option"
  data_width :: number
  data_height :: number
  components :: "DiagramComponent list"
  connections :: "DiagramConnection list"

record coords =
  coord_x :: number
  coord_y :: number

text \<open>The nine members of the union type \<^verbatim>\<open>ComponentType\<close>.\<close>

definition ComponentType :: "string list" where
  "ComponentType =
     [''battery'', ''resistor'', ''led'', ''switch'',
      ''generator'', ''transformer'', ''bus'', ''breaker'', ''load'']"

section \<open>Terminal coordinates\<close>

text \<open>
  \<^verbatim>\<open>getTerminalCoords(component, terminal)\<close>. The component is \<^const>\<open>None\<close> when the map
  lookup found nothing, the terminal is \<^const>\<open>None\<close> when the reference had no second
  part (\<^verbatim>\<open>undefined\<close>), which \<^verbatim>\<open>parseFloat\<close> reads as the string \<^verbatim>\<open>undefined\<close>.
\<close>

definition toString_terminal :: "string option \<Rightarrow> string" where
  "toString_terminal terminal = (case terminal of None \<Rightarrow> ''undefined'' | Some t \<Rightarrow> t)"

definition getTerminalCoords :: "DiagramComponent option \<Rightarrow> string option \<Rightarrow> coords option" where
  "getTerminalCoords component terminal =
     (case component of
        None \<Rightarrow> None
      | Some c \<Rightarrow>
          (let x = comp_x c; y = comp_y c; ty = comp_type c in
           if ty = ''battery'' then
             Some (if terminal = Some ''positive'' then \<lparr>coord_x = x, coord_y = y - Num 20\<rparr>
                   else \<lparr>coord_x = x, coord_y = y + Num 20\<rparr>)
           else if ty = ''resistor'' then
             Some (if terminal = Some ''in'' then \<lparr>coord_x = x - Num 30, coord_y = y\<rparr>
                   else \<lparr>coord_x = x + Num 30, coord_y = y\<rparr>)
           else if ty = ''led'' then
             Some (if terminal = Some ''anode'' then \<lparr>coord_x = x - Num 25, coord_y = y\<rparr>
                   else \<lparr>coord_x = x + Num 25, coord_y = y\<rparr>)
           else if ty = ''switch'' then
             Some (if terminal = Some ''in'' then \<lparr>coord_x = x - Num 30, coord_y = y\<rparr>
                   else \<lparr>coord_x = x + Num 30, coord_y = y\<rparr>)
           else if ty = ''generator'' then
             Some \<lparr>coord_x = x, coord_y = y + Num 30\<rparr>
           else if ty = ''transformer'' then
             Some (if terminal = Some ''primary'' then \<lparr>coord_x = x, coord_y = y - Num 30\<rparr>
                   else \<lparr>coord_x = x, coord_y = y + Num 30\<rparr>)
           else if ty = ''bus'' then
             (let busOffset = parseFloat (toString_terminal terminal) in
              Some \<lparr>coord_x = x + (if isNaN busOffset then Num 0 else busOffset), coord_y = y\<rparr>)
           else if ty = ''breaker'' then
             Some (if terminal = Some ''in'' then \<lparr>coord_x = x - Num 25, coord_y = y\<rparr>
                   else \<lparr>coord_x = x + Num 25, coord_y = y\<rparr>)
           else if ty = ''load'' then
             Some \<lparr>coord_x = x, coord_y = y - Num 25\<rparr>
           else None))"

section \<open>The drawing functions\<close>

text \<open>
  An SVG element is its tag, its attributes in the order they are set, and its child
  nodes. An attribute value is a template: literal text and numbers whose decimal
  rendering is left symbolic. The markup assigned to \<^verbatim>\<open>innerHTML\<close> is given as the
  elements it parses to; the white space between them is dropped.
\<close>

datatype piece = S string | N number

datatype svg =
    Element (el_tag: string) (el_attrs: "(string \<times> piece list) list") (el_children: "svg list")
  | TextNode string

definition attr :: "string \<Rightarrow> string \<Rightarrow> string \<times> piece list" where
  "attr k v = (k, [S v])"

definition line_el :: "string \<Rightarrow> string \<Rightarrow> string \<Rightarrow> string \<Rightarrow> string \<Rightarrow> svg" where
  "line_el x1 y1 x2 y2 cls =
     Element ''line'' [attr ''x1'' x1, attr ''y1'' y1, attr ''x2'' x2, attr ''y2'' y2,
                       attr ''class'' cls] []"

definition drawBattery :: svg where
  "drawBattery = Element ''g'' []
     [line_el ''0'' ''-20'' ''0'' ''20'' ''component-body terminal'',
      line_el ''-15'' ''-10'' ''15'' ''-10'' ''component-body'',
      line_el ''-10'' ''10'' ''10'' ''10'' ''component-body'',
      Element ''text'' [attr ''x'' ''-25'', attr ''y'' ''-8'', attr ''font-size'' ''16px'',
                        attr ''text-anchor'' ''middle''] [TextNode ''+''],
      Element ''text'' [attr ''x'' ''-20'', attr ''y'' ''15'', attr ''font-size'' ''20px'',
                        attr ''text-anchor'' ''middle''] [TextNode ''-'']]"

definition drawResistor :: svg where
  "drawResistor = Element ''g'' []
     [line_el ''-30'' ''0'' ''-20'' ''0'' ''component-body terminal'',
      Element ''path'' [attr ''d'' ''M -20 0 l 5 -10 l 10 20 l 10 -20 l 10 20 l 10 -20 l 5 10'',
                        attr ''stroke'' ''black'', attr ''stroke-width'' ''2'',
                        attr ''fill'' ''none'', attr ''class'' ''component-body''] [],
      line_el ''20'' ''0'' ''30'' ''0'' ''component-body terminal'']"

definition drawLed :: svg where
  "drawLed = Element ''g'' []
     [line_el ''-25'' ''0'' ''0'' ''0'' ''component-body terminal'',
      line_el ''25'' ''0'' ''0'' ''0'' ''component-body terminal'',
      Element ''path'' [attr ''d'' ''M 0 -15 l 25 15 l -25 15 z'', attr ''class'' ''component-body'',
                        attr ''fill'' ''none''] [],
      line_el ''-5'' ''15'' ''25'' ''15'' ''component-body'',
      Element ''g'' [attr ''transform'' ''translate(5, -20) rotate(-45)'']
        [Element ''path'' [attr ''d'' ''M 0 0 l 5 5 l -5 5'', attr ''fill'' ''none'',
                           attr ''stroke-width'' ''2'', attr ''class'' ''component-body''] [],
         Element ''path'' [attr ''d'' ''M 5 0 l 5 5 l -5 5'', attr ''fill'' ''none'',
                           attr ''stroke-width'' ''2'', attr ''class'' ''component-body''] []]]"

text \<open>
  \<^verbatim>\<open>drawSwitch(state = 'open')\<close>: the default applies when the argument is \<^verbatim>\<open>undefined\<close>.
  \<^verbatim>\<open>switchRotation\<close> is the local constant \<^verbatim>\<open>rotation\<close>.
\<close>

definition switchRotation :: "string option \<Rightarrow> string" where
  "switchRotation state =
     (let state' = (case state of None \<Rightarrow> ''open'' | Some s \<Rightarrow> s)
      in if state' = ''open'' then ''-30'' else ''0'')"

definition drawSwitch :: "string option \<Rightarrow> svg" where
  "drawSwitch state = Element ''g'' []
     [line_el ''-30'' ''0'' ''-5'' ''0'' ''component-body terminal'',
      line_el ''30'' ''0'' ''5'' ''0'' ''component-body terminal'',
      Element ''circle'' [attr ''cx'' ''-5'', attr ''cy'' ''0'', attr ''r'' ''3'',
                          attr ''class'' ''component-body'', attr ''fill'' ''#333''] [],
      Element ''circle'' [attr ''cx'' ''5'', attr ''cy'' ''0'', attr ''r'' ''3'',
                          attr ''class'' ''component-body'', attr ''fill'' ''#333''] [],
      Element ''line'' [attr ''x1'' ''-5'', attr ''y1'' ''0'', attr ''x2'' ''25'', attr ''y2'' ''0'',
                        attr ''class'' ''component-body'',
                        (''transform'', [S ''rotate('', S (switchRotation state), S '' -5 0)''])] []]"

definition drawGenerator :: svg where
  "drawGenerator = Element ''g'' []
     [Element ''circle'' [attr ''cx'' ''0'', attr ''cy'' ''0'', attr ''r'' ''20'',
                          attr ''class'' ''component-body'', attr ''fill'' ''none''] [],
      Element ''path'' [attr ''d'' ''M -13 0 Q -6.5 -15 0 0 T 13 0'',
                        attr ''class'' ''component-symbol''] [],
      line_el ''0'' ''20'' ''0'' ''30'' ''component-body terminal'']"

definition drawTransformer :: svg where
  "drawTransformer = Element ''g'' []
     [Element ''circle'' [attr ''cx'' ''0'', attr ''cy'' ''-8'', attr ''r'' ''12'',
                          attr ''class'' ''component-body'', attr ''fill'' ''none''] [],
      Element ''circle'' [attr ''cx'' ''0'', attr ''cy'' ''8'', attr ''r'' ''12'',
                          attr ''class'' ''component-body'', attr ''fill'' ''none''] [],
      line_el ''0'' ''-20'' ''0'' ''-30'' ''component-body terminal'',
      line_el ''0'' ''20'' ''0'' ''30'' ''component-body terminal'']"

text \<open>\<^verbatim>\<open>drawBus(width = 100)\<close>.\<close>

definition drawBus :: "number option \<Rightarrow> svg" where
  "drawBus width =
     (let width' = (case width of None \<Rightarrow> Num 100 | Some w \<Rightarrow> w) in
      Element ''g'' []
        [Element ''line'' [(''x1'', [N (- width' / Num 2)]), attr ''y1'' ''0'',
                           (''x2'', [N (width' / Num 2)]), attr ''y2'' ''0'',
                           attr ''class'' ''bus-bar''] []])"

definition drawCircuitBreaker :: svg where
  "drawCircuitBreaker = Element ''g'' []
     [Element ''rect'' [attr ''x'' ''-8'', attr ''y'' ''-8'', attr ''width'' ''16'',
                        attr ''height'' ''16'', attr ''class'' ''component-body'',
                        attr ''fill'' ''none''] [],
      line_el ''-25'' ''0'' ''-8'' ''0'' ''component-body terminal'',
      line_el ''25'' ''0'' ''8'' ''0'' ''component-body terminal'']"

definition drawLoad :: svg where
  "drawLoad = Element ''g'' []
     [line_el ''0'' ''-25'' ''0'' ''0'' ''component-body terminal'',
      Element ''path'' [attr ''d'' ''M 0 0 L -10 10 L 0 5 L 10 10 Z'',
                        attr ''class'' ''component-symbol''] []]"

section \<open>Rendering a diagram\<close>

text \<open>\<^verbatim>\<open>String.prototype.split\<close> with a one-character separator.\<close>

fun split :: "char \<Rightarrow> string \<Rightarrow> string list" where
  "split sep [] = [[]]"
| "split sep (c # cs) =
     (if c = sep then [] # split sep cs
      else (case split sep cs of [] \<Rightarrow> [[c]] | p # ps \<Rightarrow> (c # p) # ps))"

text \<open>
  The destructuring \<^verbatim>\<open>const [id, terminal] = ref.split('.')\<close>: the first two parts, the
  second \<^verbatim>\<open>undefined\<close> when there is only one.
\<close>

definition destructure :: "string list \<Rightarrow> string \<times> string option" where
  "destructure parts =
     (case parts of
        [] \<Rightarrow> ([], None)
      | a # rest \<Rightarrow> (a, (case rest of [] \<Rightarrow> None | b # _ \<Rightarrow> Some b)))"

text \<open>
  \<^verbatim>\<open>new Map(data.components.map(c => [c.id, c]))\<close>: the entries are set in order, so of
  two components with one id the later one is kept.
\<close>

definition componentMap :: "DiagramComponent list \<Rightarrow> (string \<rightharpoonup> DiagramComponent)" where
  "componentMap cs = fold (\<lambda>c m. m(comp_id c \<mapsto> c)) cs Map.empty"

definition wire :: "coords \<Rightarrow> coords \<Rightarrow> svg" where
  "wire fromCoords toCoords =
     Element ''line''
       [(''x1'', [N (coord_x fromCoords)]), (''y1'', [N (coord_y fromCoords)]),
        (''x2'', [N (coord_x toCoords)]), (''y2'', [N (coord_y toCoords)]),
        attr ''class'' ''wire''] []"

text \<open>
  One end of a connection: the reference is split at the dots, the component is looked up
  by the first part and its terminal by the second.
\<close>

definition endpointCoords :: "(string \<rightharpoonup> DiagramComponent) \<Rightarrow> string \<Rightarrow> coords option" where
  "endpointCoords m ref =
     (let (cid, terminal) = destructure (split CHR ''.'' ref)
      in getTerminalCoords (m cid) terminal)"

text \<open>The body of the first loop: the children of the canvas after one connection.\<close>

definition drawConnection ::
  "(string \<rightharpoonup> DiagramComponent) \<Rightarrow> DiagramConnection \<Rightarrow> svg list \<Rightarrow> svg list" where
  "drawConnection m conn children =
     (let fromCoords = endpointCoords m (conn_from conn);
          toCoords = endpointCoords m (conn_to conn)
      in (case fromCoords of
            None \<Rightarrow> children
          | Some f \<Rightarrow> (case toCoords of None \<Rightarrow> children | Some t \<Rightarrow> children @ [wire f t])))"

fun drawConnections ::
  "(string \<rightharpoonup> DiagramComponent) \<Rightarrow> DiagramConnection list \<Rightarrow> svg list \<Rightarrow> svg list" where
  "drawConnections m [] children = children"
| "drawConnections m (conn # conns) children =
     drawConnections m conns (drawConnection m conn children)"

text \<open>The \<^verbatim>\<open>switch\<close> over the component's type; \<^const>\<open>None\<close> is \<^verbatim>\<open>componentSvg\<close> left \<^verbatim>\<open>null\<close>.\<close>

definition componentSvg :: "DiagramComponent \<Rightarrow> svg option" where
  "componentSvg component =
     (let ty = comp_type component in
      if ty = ''battery'' then Some drawBattery
      else if ty = ''resistor'' then Some drawResistor
      else if ty = ''led'' then Some drawLed
      else if ty = ''switch'' then Some (drawSwitch (comp_state component))
      else if ty = ''generator'' then Some drawGenerator
      else if ty = ''transformer'' then Some drawTransformer
      else if ty = ''bus'' then Some (drawBus (comp_width component))
      else if ty = ''breaker'' then Some drawCircuitBreaker
      else if ty = ''load'' then Some drawLoad
      else None)"

text \<open>
  The body of the second loop: the group of one component, symbol first, then label.
  Assigning the empty string to \<^verbatim>\<open>textContent\<close> leaves the label without a text node.
\<close>

definition drawComponent :: "DiagramComponent \<Rightarrow> svg" where
  "drawComponent component =
     Element ''g''
       [(''transform'',
         [S ''translate('', N (comp_x component), S '', '', N (comp_y component), S '')''])]
       ((case componentSvg component of None \<Rightarrow> [] | Some g \<Rightarrow> [g]) @
        [Element ''text'' [attr ''x'' ''0'', attr ''y'' ''45'', attr ''class'' ''component-label'']
           (if comp_label component = [] then [] else [TextNode (comp_label component)])])"

fun drawComponents :: "DiagramComponent list \<Rightarrow> svg list \<Rightarrow> svg list" where
  "drawComponents [] children = children"
| "drawComponents (component # rest) children =
     drawComponents rest (children @ [drawComponent component])"

text \<open>
  \<^verbatim>\<open>svgChildren\<close> is the child list of the \<^verbatim>\<open>svg\<close> element when both loops are done, in
  document order, which is the order elements are painted in. \<^verbatim>\<open>renderDiagram\<close> gives
  the \<^verbatim>\<open>div\<close> that is appended to the message.
\<close>

definition svgChildren :: "DiagramData \<Rightarrow> svg list" where
  "svgChildren data =
     drawComponents (components data)
       (drawConnections (componentMap (components data)) (connections data) [])"

definition renderDiagram :: "DiagramData \<Rightarrow> svg" where
  "renderDiagram data =
     Element ''div'' [attr ''class'' ''diagram-container'']
       [Element ''svg''
          ([(''viewBox'', [S ''0 0 '', N (data_width data), S '' '', N (data_height data)]),
            attr ''preserveAspectRatio'' ''xMidYMid meet''] @
           (if diagramType data = Some ''single-line'' then [attr ''class'' ''single-line-diagram'']
            else []))
          (svgChildren data)]"

section \<open>The built-in \<^verbatim>\<open>JSON.parse\<close>\<close>

text \<open>
  The values of JSON. An object keeps its members in the order of the text; a lookup takes
  the last member of a name, as the later of two equal keys overwrites the earlier.
\<close>

datatype json =
    JNull
  | JBool bool
  | JNumber number
  | JString string
  | JArray "json list"
  | JObject "(string \<times> json) list"

datatype token =
    TLBrace | TRBrace | TLBracket | TRBracket | TColon | TComma
  | TString string | TNumber number | TTrue | TFalse | TNull

text \<open>
  A JSON number: an optional minus, an integer part with no leading zero, an optional
  fraction and an optional exponent, and nothing after it.
\<close>

definition jsonNumber :: "string \<Rightarrow> number option" where
  "jsonNumber s =
     (let neg = (s \<noteq> [] \<and> hd s = CHR ''-'');
          r0 = (if neg then tl s else s);
          ip = takeWhile isDigit r0; r1 = dropWhile isDigit r0;
          dot = (r1 \<noteq> [] \<and> hd r1 = CHR ''.'');
          fp = (if dot then takeWhile isDigit (tl r1) else []);
          r2 = (if dot then dropWhile isDigit (tl r1) else r1);
          ex = (r2 \<noteq> [] \<and> (hd r2 = CHR ''e'' \<or> hd r2 = CHR ''E''));
          (eneg, r3) = (if ex then readSign (tl r2) else (False, r2));
          ed = (if ex then takeWhile isDigit r3 else []);
          r4 = (if ex then dropWhile isDigit r3 else r2);
          m = scale10 (real (digitsValue ip) + real (digitsValue fp) / 10 ^ length fp)
                (if eneg then - int (digitsValue ed) else int (digitsValue ed))
      in if ip = [] \<or> (1 < length ip \<and> hd ip = CHR ''0'') \<or> (dot \<and> fp = []) \<or> (ex \<and> ed = [])
            \<or> r4 \<noteq> [] then None
         else Some (Num (if neg then - m else m)))"

definition wordToken :: "string \<Rightarrow> token option" where
  "wordToken w =
     (if w = ''true'' then Some TTrue
      else if w = ''false'' then Some TFalse
      else if w = ''null'' then Some TNull
      else None)"

definition escapeChar :: "char \<Rightarrow> char option" where
  "escapeChar c =
     (if c = CHR 0x22 then Some (CHR 0x22)
      else if c = CHR 0x5C then Some (CHR 0x5C)
      else if c = CHR ''/'' then Some (CHR ''/'')
      else if c = CHR ''b'' then Some (CHR 0x08)
      else if c = CHR ''f'' then Some (CHR 0x0C)
      else if c = CHR ''n'' then Some (CHR 0x0A)
      else if c = CHR ''r'' then Some (CHR 0x0D)
      else if c = CHR ''t'' then Some (CHR 0x09)
      else None)"

definition isHexDigit :: "char \<Rightarrow> bool" where
  "isHexDigit c = (c \<in> set ''0123456789abcdefABCDEF'')"

definition hexDigitValue :: "char \<Rightarrow> nat" where
  "hexDigitValue c =
     (if isDigit c then of_char c - 48
      else if c \<in> set ''abcdef'' then of_char c - 87
      else of_char c - 55)"

definition hexValue :: "string \<Rightarrow> nat" where
  "hexValue ds = foldl (\<lambda>acc c. acc * 16 + hexDigitValue c) 0 ds"

text \<open>The UTF-8 bytes of one UTF-16 code unit; surrogate pairs are not joined.\<close>

definition utf8 :: "nat \<Rightarrow> string" where
  "utf8 n =
     (if n < 0x80 then [char_of n]
      else if n < 0x800 then [char_of (0xC0 + n div 64), char_of (0x80 + n mod 64)]
      else [char_of (0xE0 + n div 4096), char_of (0x80 + (n div 64) mod 64),
            char_of (0x80 + n mod 64)])"

definition isJsonWhiteSpace :: "char \<Rightarrow> bool" where
  "isJsonWhiteSpace c = (c \<in> set [CHR 0x20, CHR 0x09, CHR 0x0A, CHR 0x0D])"

definition isNumberChar :: "char \<Rightarrow> bool" where
  "isNumberChar c = (c \<in> set ''0123456789+-.eE'')"

definition isLetter :: "char \<Rightarrow> bool" where
  "isLetter c = (c \<in> set ''abcdefghijklmnopqrstuvwxyz'')"

definition isControl :: "char \<Rightarrow> bool" where
  "isControl c = ((of_char c :: nat) < 0x20)"

datatype lexstate =
    LStart
  | LStr string
  | LEsc string
  | LUni string string
  | LNum string
  | LWord string

text \<open>
  The tokens of a text. A run of number characters, or of letters, is one token and must
  be one number, or one of the three literals: a text in which it is not is refused by
  the grammar too, which never has two values side by side.
\<close>

function (sequential) lexJSON :: "lexstate \<Rightarrow> string \<Rightarrow> token list option" where
  "lexJSON st [] =
     (case st of
        LStart \<Rightarrow> Some []
      | LNum run \<Rightarrow> map_option (\<lambda>n. [TNumber n]) (jsonNumber run)
      | LWord run \<Rightarrow> map_option (\<lambda>t. [t]) (wordToken run)
      | _ \<Rightarrow> None)"
| "lexJSON LStart (c # cs) =
     (if isJsonWhiteSpace c then lexJSON LStart cs
      else if c = CHR ''{'' then map_option (Cons TLBrace) (lexJSON LStart cs)
      else if c = CHR ''}'' then map_option (Cons TRBrace) (lexJSON LStart cs)
      else if c = CHR ''['' then map_option (Cons TLBracket) (lexJSON LStart cs)
      else if c = CHR '']'' then map_option (Cons TRBracket) (lexJSON LStart cs)
      else if c = CHR '':'' then map_option (Cons TColon) (lexJSON LStart cs)
      else if c = CHR '','' then map_option (Cons TComma) (lexJSON LStart cs)
      else if c = CHR 0x22 then lexJSON (LStr []) cs
      else if c = CHR ''-'' \<or> isDigit c then lexJSON (LNum [c]) cs
      else if isLetter c then lexJSON (LWord [c]) cs
      else None)"
| "lexJSON (LStr acc) (c # cs) =
     (if c = CHR 0x22 then map_option (Cons (TString acc)) (lexJSON LStart cs)
      else if c = CHR 0x5C then lexJSON (LEsc acc) cs
      else if isControl c then None
      else lexJSON (LStr (acc @ [c])) cs)"
| "lexJSON (LEsc acc) (c # cs) =
     (if c = CHR ''u'' then lexJSON (LUni acc []) cs
      else (case escapeChar c of
              None \<Rightarrow> None
            | Some e \<Rightarrow> lexJSON (LStr (acc @ [e])) cs))"
| "lexJSON (LUni acc hex) (c # cs) =
     (if \<not> isHexDigit c then None
      else if length hex = 3 then lexJSON (LStr (acc @ utf8 (hexValue (hex @ [c])))) cs
      else lexJSON (LUni acc (hex @ [c])) cs)"
| "lexJSON (LNum run) (c # cs) =
     (if isNumberChar c then lexJSON (LNum (run @ [c])) cs
      else (case jsonNumber run of
              None \<Rightarrow> None
            | Some n \<Rightarrow> map_option (Cons (TNumber n)) (lexJSON LStart (c # cs))))"
| "lexJSON (LWord run) (c # cs) =
     (if isLetter c then lexJSON (LWord (run @ [c])) cs
      else (case wordToken run of
              None \<Rightarrow> None
            | Some t \<Rightarrow> map_option (Cons t) (lexJSON LStart (c # cs))))"
  by pat_completeness auto
termination
  by (relation "measure (\<lambda>(st, s). 2 * length s + (if st = LStart then 0 else 1))") auto

text \<open>
  The grammar, as a machine over the tokens: what is expected next, and the stack of the
  arrays and objects that are open (an object with the key whose value is being read).
\<close>

datatype frame = InArray "json list" | InObject "(string \<times> json) list" string

datatype pstate = PValue | PValueOrEnd | PKey | PKeyOrEnd | PColon | PAfter json

definition beginValue :: "frame list \<Rightarrow> token \<Rightarrow> (pstate \<times> frame list) option" where
  "beginValue stack t =
     (case t of
        TString s \<Rightarrow> Some (PAfter (JString s), stack)
      | TNumber n \<Rightarrow> Some (PAfter (JNumber n), stack)
      | TTrue \<Rightarrow> Some (PAfter (JBool True), stack)
      | TFalse \<Rightarrow> Some (PAfter (JBool False), stack)
      | TNull \<Rightarrow> Some (PAfter JNull, stack)
      | TLBracket \<Rightarrow> Some (PValueOrEnd, InArray [] # stack)
      | TLBrace \<Rightarrow> Some (PKeyOrEnd, InObject [] [] # stack)
      | _ \<Rightarrow> None)"

definition beginKey :: "frame list \<Rightarrow> token \<Rightarrow> (pstate \<times> frame list) option" where
  "beginKey stack t =
     (case (t, stack) of
        (TString k, InObject kvs _ # stack') \<Rightarrow> Some (PColon, InObject kvs k # stack')
      | _ \<Rightarrow> None)"

definition parseStep :: "pstate \<Rightarrow> frame list \<Rightarrow> token \<Rightarrow> (pstate \<times> frame list) option" where
  "parseStep st stack t =
     (case st of
        PValue \<Rightarrow> beginValue stack t
      | PValueOrEnd \<Rightarrow>
          (case (t, stack) of
             (TRBracket, InArray xs # stack') \<Rightarrow> Some (PAfter (JArray xs), stack')
           | _ \<Rightarrow> beginValue stack t)
      | PKey \<Rightarrow> beginKey stack t
      | PKeyOrEnd \<Rightarrow>
          (case (t, stack) of
             (TRBrace, InObject kvs _ # stack') \<Rightarrow> Some (PAfter (JObject kvs), stack')
           | _ \<Rightarrow> beginKey stack t)
      | PColon \<Rightarrow> (case t of TColon \<Rightarrow> Some (PValue, stack) | _ \<Rightarrow> None)
      | PAfter v \<Rightarrow>
          (case (stack, t) of
             (InArray xs # stack', TComma) \<Rightarrow> Some (PValue, InArray (xs @ [v]) # stack')
           | (InArray xs # stack', TRBracket) \<Rightarrow> Some (PAfter (JArray (xs @ [v])), stack')
           | (InObject kvs k # stack', TComma) \<Rightarrow>
               Some (PKey, InObject (kvs @ [(k, v)]) [] # stack')
           | (InObject kvs k # stack', TRBrace) \<Rightarrow>
               Some (PAfter (JObject (kvs @ [(k, v)])), stack')
           | _ \<Rightarrow> None))"

fun parseTokens :: "pstate \<Rightarrow> frame list \<Rightarrow> token list \<Rightarrow> json option" where
  "parseTokens st stack [] =
     (case (st, stack) of (PAfter v, []) \<Rightarrow> Some v | _ \<Rightarrow> None)"
| "parseTokens st stack (t # ts) =
     (case parseStep st stack t of
        None \<Rightarrow> None
      | Some (st', stack') \<Rightarrow> parseTokens st' stack' ts)"

text \<open>\<^verbatim>\<open>JSON.parse(text)\<close>: \<^const>\<open>None\<close> is the \<^verbatim>\<open>SyntaxError\<close> it throws.\<close>

definition JSON_parse :: "string \<Rightarrow> json option" where
  "JSON_parse s =
     (case lexJSON LStart s of
        None \<Rightarrow> None
      | Some ts \<Rightarrow> parseTokens PValue [] ts)"

section \<open>Classifying a completed reply\<close>

text \<open>
  What \<^verbatim>\<open>if (v)\<close> takes for true, and \<^verbatim>\<open>v.name\<close> for a parsed value (\<^const>\<open>None\<close> is
  \<^verbatim>\<open>undefined\<close>; only the names \<^verbatim>\<open>action\<close>, \<^verbatim>\<open>prompt\<close>, \<^verbatim>\<open>components\<close> and
  \<^verbatim>\<open>connections\<close> are read, which no prototype defines).
\<close>

fun truthy :: "json \<Rightarrow> bool" where
  "truthy JNull = False"
| "truthy (JBool b) = b"
| "truthy (JNumber n) = (n \<noteq> Num 0 \<and> n \<noteq> NaN)"
| "truthy (JString s) = (s \<noteq> [])"
| "truthy (JArray xs) = True"
| "truthy (JObject kvs) = True"

definition truthyProp :: "json option \<Rightarrow> bool" where
  "truthyProp p = (case p of None \<Rightarrow> False | Some v \<Rightarrow> truthy v)"

definition getProp :: "json \<Rightarrow> string \<Rightarrow> json option" where
  "getProp v k = (case v of JObject kvs \<Rightarrow> map_of (rev kvs) k | _ \<Rightarrow> None)"

text \<open>The first place where \<^verbatim>\<open>p\<close> stands in a string: the text before it and after it.\<close>

fun splitAtFirst :: "string \<Rightarrow> string \<Rightarrow> (string \<times> string) option" where
  "splitAtFirst p [] = (if p = [] then Some ([], []) else None)"
| "splitAtFirst p (c # cs) =
     (if startsWith (c # cs) p then Some ([], drop (length p) (c # cs))
      else map_option (\<lambda>(before, after). (c # before, after)) (splitAtFirst p cs))"

text \<open>
  \<^verbatim>\<open>fullResponse.match(/```json\n([\s\S]*?)\n```/)\<close>: the leftmost opening delimiter,
  then the shortest text up to a closing delimiter. The result is the captured group,
  \<^const>\<open>None\<close> when there is no match.
\<close>

definition jsonMatch :: "string \<Rightarrow> string option" where
  "jsonMatch fullResponse =
     (case splitAtFirst ''```json\<newline>'' fullResponse of
        None \<Rightarrow> None
      | Some (before, rest) \<Rightarrow>
          (case splitAtFirst ''\<newline>```'' rest of
             None \<Rightarrow> None
           | Some (inner, after) \<Rightarrow> Some inner))"

text \<open>
  What \<^verbatim>\<open>handleFormSubmit\<close> does with the reply once the stream has ended: it asks for an
  image (\<^verbatim>\<open>handleImageGeneration\<close> with the prompt), it renders a diagram
  (\<^verbatim>\<open>renderDiagram\<close> with the parsed value), or the message shows the text of its
  argument, left there by the stream or written again by \<^verbatim>\<open>renderAsText\<close>.
\<close>

datatype outcome = ImageDirective json | Diagram json | PlainText string

text \<open>The variable \<^verbatim>\<open>parsedJson\<close> after the two attempts; \<^const>\<open>None\<close> is its initial \<^verbatim>\<open>null\<close>.\<close>

definition parsedJson :: "string \<Rightarrow> json option" where
  "parsedJson fullResponse =
     (case JSON_parse fullResponse of
        Some v \<Rightarrow> Some v
      | None \<Rightarrow>
          (case jsonMatch fullResponse of
             None \<Rightarrow> None
           | Some inner \<Rightarrow> if inner \<noteq> [] then JSON_parse inner else None))"

definition dispatch :: "string \<Rightarrow> json option \<Rightarrow> outcome" where
  "dispatch fullResponse parsed =
     (case parsed of
        None \<Rightarrow> PlainText fullResponse
      | Some v \<Rightarrow>
          if truthy v then
            (if getProp v ''action'' = Some (JString ''generate_image'')
                \<and> truthyProp (getProp v ''prompt'')
             then (case getProp v ''prompt'' of
                     Some p \<Rightarrow> ImageDirective p
                   | None \<Rightarrow> PlainText fullResponse)
             else if truthyProp (getProp v ''components'') \<and> truthyProp (getProp v ''connections'')
             then Diagram v
             else PlainText fullResponse)
          else PlainText fullResponse)"

definition classify :: "string \<Rightarrow> outcome" where
  "classify fullResponse = dispatch fullResponse (parsedJson fullResponse)"

section \<open>The specification's terminal table\<close>

text \<open>
  The table of section 4.1 of the specification, in its words: for each kind the named
  terminals with their local offsets, and the offset of the kind's default terminal
  (the single terminal of a generator or a load, the centre of a bus).
\<close>

definition spec_terminal_table :: "string \<Rightarrow> (string \<times> real \<times> real) list" where
  "spec_terminal_table kind =
     (if kind = ''battery'' then [(''positive'', 0, - 20), (''negative'', 0, 20)]
      else if kind = ''resistor'' then [(''in'', - 30, 0), (''out'', 30, 0)]
      else if kind = ''led'' then [(''anode'', - 25, 0), (''cathode'', 25, 0)]
      else if kind = ''switch'' then [(''in'', - 30, 0), (''out'', 30, 0)]
      else if kind = ''transformer'' then [(''primary'', 0, - 30), (''secondary'', 0, 30)]
      else if kind = ''breaker'' then [(''in'', - 25, 0), (''out'', 25, 0)]
      else [])"

definition spec_default_offset :: "string \<Rightarrow> real \<times> real" where
  "spec_default_offset kind =
     (if kind = ''battery'' then (0, 20)
      else if kind = ''resistor'' then (30, 0)
      else if kind = ''led'' then (25, 0)
      else if kind = ''switch'' then (30, 0)
      else if kind = ''generator'' then (0, 30)
      else if kind = ''transformer'' then (0, 30)
      else if kind = ''breaker'' then (25, 0)
      else if kind = ''load'' then (0, - 25)
      else (0, 0))"

text \<open>
  A terminal name the table recognizes for a kind: one of the kind's named terminals, or,
  for a bus, a string that \<^verbatim>\<open>parseFloat\<close> reads as a number.
\<close>

definition spec_recognized :: "string \<Rightarrow> string \<Rightarrow> bool" where
  "spec_recognized kind t =
     (if kind = ''bus'' then parseFloat t \<noteq> NaN
      else t \<in> set (map fst (spec_terminal_table kind)))"

text \<open>The position of a component moved by a local offset.\<close>

definition offsetFrom :: "DiagramComponent \<Rightarrow> real \<times> real \<Rightarrow> coords" where
  "offsetFrom c d = \<lparr>coord_x = comp_x c + Num (fst d), coord_y = comp_y c + Num (snd d)\<rparr>"

text \<open>
  A fenced block in the specification's words: a line that is only the opening
  delimiter, and a later line that is only the closing delimiter.
\<close>

definition spec_fenced_lines :: "string \<Rightarrow> bool" where
  "spec_fenced_lines s =
     (case dropWhile (\<lambda>l. l \<noteq> ''```json'') (split CHR ''\<newline>'' s) of
        [] \<Rightarrow> False
      | l # rest \<Rightarrow> ''```'' \<in> set rest)"

text \<open>The elements the two loops append: a wire, and the group of a component.\<close>

definition isWire :: "svg \<Rightarrow> bool" where
  "isWire e = (case e of Element t a k \<Rightarrow> t = ''line'' \<and> length a = 5 \<and> k = [] | TextNode _ \<Rightarrow> False)"

definition isComponentGroup :: "svg \<Rightarrow> bool" where
  "isComponentGroup e = (case e of Element t a k \<Rightarrow> t = ''g'' | TextNode _ \<Rightarrow> False)"

section \<open>Sample data\<close>

definition sample_battery :: DiagramComponent where
  "sample_battery =
     \<lparr>comp_id = ''b1'', comp_type = ''battery'', comp_x = Num 50, comp_y = Num 50,
      comp_label = ''V1'', comp_state = None, comp_width = None\<rparr>"

definition sample_bus :: DiagramComponent where
  "sample_bus =
     \<lparr>comp_id = ''bus1'', comp_type = ''bus'', comp_x = Num 100, comp_y = Num 80,
      comp_label = ''B1'', comp_state = None, comp_width = Some (Num 120)\<rparr>"

definition sample_capacitor :: DiagramComponent where
  "sample_capacitor =
     \<lparr>comp_id = ''c1'', comp_type = ''capacitor'', comp_x = Num 10, comp_y = Num 20,
      comp_label = ''C1'', comp_state = None, comp_width = None\<rparr>"

definition sample_switch :: DiagramComponent where
  "sample_switch =
     \<lparr>comp_id = ''s1'', comp_type = ''switch'', comp_x = Num 200, comp_y = Num 50,
      comp_label = ''S1'', comp_state = Some ''closed'', comp_width = None\<rparr>"

definition sample_resistor :: DiagramComponent where
  "sample_resistor =
     \<lparr>comp_id = ''r1'', comp_type = ''resistor'', comp_x = Num 150, comp_y = Num 50,
      comp_label = ''R1'', comp_state = None, comp_width = None\<rparr>"

definition sample_diagram :: DiagramData where
  "sample_diagram =
     \<lparr>diagramType = None, data_width = Num 300, data_height = Num 100,
      components = [sample_battery, sample_resistor],
      connections =
        [\<lparr>conn_from = ''b1.positive'', conn_to = ''r1.in''\<rparr>,
         \<lparr>conn_from = ''ghost.out'', conn_to = ''r1.out''\<rparr>,
         \<lparr>conn_from = ''r1.out'', conn_to = ''b1.negative''\<rparr>]\<rparr>"

section \<open>Facts about the model\<close>

lemma number_plus_zero [simp]: "number_plus a (Num 0) = a"
  by (cases a) simp_all

lemma number_add_zero [simp]: "a + Num 0 = (a::number)"
  by (simp add: plus_number_def)

lemma number_sub_Num: "a - Num r = (a::number) + Num (- r)"
  by (simp add: plus_number_def minus_number_def)

lemma parseFloat_minus_40: "parseFloat ''-40'' = Num (- 40)"
  by (simp add: parseFloat_def readSign_def startsWith_def strDecimalLiteral_def
      whiteSpaceLength_def isDigit_def digitsValue_def exponentPart_def scale10_def)

lemma parseFloat_undefined: "parseFloat ''undefined'' = NaN"
  by (simp add: parseFloat_def readSign_def startsWith_def strDecimalLiteral_def
      whiteSpaceLength_def isDigit_def digitsValue_def exponentPart_def scale10_def)

lemma declared_cases:
  assumes "k \<in> set ComponentType"
  obtains "k = ''battery''" | "k = ''resistor''" | "k = ''led''" | "k = ''switch''"
    | "k = ''generator''" | "k = ''transformer''" | "k = ''bus''" | "k = ''breaker''" | "k = ''load''"
  using assms unfolding ComponentType_def list.set insert_iff empty_iff
  by (elim disjE) blast+

lemma getTerminalCoords_default:
  assumes "comp_type c \<in> set ComponentType" and "\<not> spec_recognized (comp_type c) t"
  shows "getTerminalCoords (Some c) (Some t) = Some (offsetFrom c (spec_default_offset (comp_type c)))"
  using assms(1)
proof (cases rule: declared_cases)
  case 7
  then show ?thesis using assms(2)
    by (simp add: getTerminalCoords_def spec_recognized_def spec_default_offset_def offsetFrom_def
        toString_terminal_def isNaN_def)
qed (use assms(2) in \<open>auto simp: getTerminalCoords_def spec_recognized_def spec_default_offset_def
        spec_terminal_table_def offsetFrom_def number_sub_Num\<close>)

lemma getTerminalCoords_undefined:
  assumes "comp_type c \<in> set ComponentType"
  shows "getTerminalCoords (Some c) None = Some (offsetFrom c (spec_default_offset (comp_type c)))"
  using assms(1)
proof (cases rule: declared_cases)
  case 7
  with parseFloat_undefined show ?thesis
    by (simp add: getTerminalCoords_def spec_default_offset_def offsetFrom_def
        toString_terminal_def isNaN_def)
qed (auto simp: getTerminalCoords_def spec_default_offset_def offsetFrom_def number_sub_Num)

lemma getTerminalCoords_None_iff:
  "getTerminalCoords co t = None \<longleftrightarrow>
     (case co of None \<Rightarrow> True | Some c \<Rightarrow> comp_type c \<notin> set ComponentType)"
  by (auto simp: getTerminalCoords_def ComponentType_def Let_def split: option.splits)

lemma drawComponents_append: "drawComponents cs kids = kids @ map drawComponent cs"
  by (induction cs arbitrary: kids) simp_all

lemma drawConnection_append: "drawConnection m conn kids = kids @ drawConnection m conn []"
  by (simp add: drawConnection_def Let_def split: option.splits)

lemma drawConnections_append: "drawConnections m conns kids = kids @ drawConnections m conns []"
proof (induction conns arbitrary: kids)
  case Nil
  show ?case by simp
next
  case (Cons conn conns)
  have "drawConnections m (conn # conns) kids = drawConnections m conns (kids @ drawConnection m conn [])"
    using drawConnection_append[of m conn kids] by simp
  also have "\<dots> = (kids @ drawConnection m conn []) @ drawConnections m conns []"
    by (rule Cons.IH)
  also have "\<dots> = kids @ drawConnections m conns (drawConnection m conn [])"
    using Cons.IH[of "drawConnection m conn []"] by simp
  finally show ?case by simp
qed

lemma drawConnections_app: "drawConnections m (xs @ ys) kids = drawConnections m ys (drawConnections m xs kids)"
  by (induction xs arbitrary: kids) simp_all

lemma isWire_wire: "isWire (wire f t)"
  by (simp add: isWire_def wire_def)

lemma drawConnection_wires: "\<forall>e \<in> set kids. isWire e \<Longrightarrow> \<forall>e \<in> set (drawConnection m conn kids). isWire e"
  by (auto simp: drawConnection_def Let_def isWire_wire split: option.splits)

lemma drawConnections_wires: "\<forall>e \<in> set kids. isWire e \<Longrightarrow> \<forall>e \<in> set (drawConnections m conns kids). isWire e"
proof (induction conns arbitrary: kids)
  case Nil
  then show ?case by simp
next
  case (Cons conn conns)
  show ?case using Cons.IH[OF drawConnection_wires[OF Cons.prems]] by simp
qed

lemma isComponentGroup_drawComponent: "isComponentGroup (drawComponent c)"
  by (simp add: isComponentGroup_def drawComponent_def)

lemma wire_not_group: "isWire e \<Longrightarrow> \<not> isComponentGroup e"
  by (auto simp: isWire_def isComponentGroup_def split: svg.splits)

lemma drawConnection_resolved:
  "endpointCoords m (conn_from conn) = Some f \<Longrightarrow> endpointCoords m (conn_to conn) = Some t \<Longrightarrow>
   drawConnection m conn kids = kids @ [wire f t]"
  by (simp add: drawConnection_def)

lemma drawConnection_dangling:
  "endpointCoords m (conn_from conn) = None \<or> endpointCoords m (conn_to conn) = None \<Longrightarrow>
   drawConnection m conn kids = kids"
  by (auto simp: drawConnection_def Let_def split: option.splits)

lemma length_drawConnections_resolved:
  "\<forall>conn \<in> set conns. endpointCoords m (conn_from conn) \<noteq> None \<and> endpointCoords m (conn_to conn) \<noteq> None \<Longrightarrow>
   length (drawConnections m conns kids) = length kids + length conns"
proof (induction conns arbitrary: kids)
  case Nil
  then show ?case by simp
next
  case (Cons conn conns)
  from Cons.prems obtain f t where "endpointCoords m (conn_from conn) = Some f"
    "endpointCoords m (conn_to conn) = Some t" by auto
  then have "drawConnection m conn kids = kids @ [wire f t]" by (rule drawConnection_resolved)
  then show ?case using Cons.IH[of "kids @ [wire f t]"] Cons.prems by simp
qed

lemma split_no_sep: "sep \<notin> set s \<Longrightarrow> split sep s = [s]"
  by (induction s) auto

lemma split_append_sep: "sep \<notin> set a \<Longrightarrow> split sep (a @ sep # r) = a # split sep r"
  by (induction a) (auto split: list.splits)

lemma split_nonempty: "split sep s \<noteq> []"
  by (induction s) (auto split: list.splits)

lemma splitAtFirst_Some:
  "splitAtFirst p s = Some (b, a) \<Longrightarrow> s = b @ p @ a"
proof (induction s arbitrary: b a)
  case Nil
  then show ?case by (simp split: if_splits)
next
  case (Cons c cs)
  show ?case
  proof (cases "startsWith (c # cs) p")
    case True
    with Cons.prems have "b = []" "a = drop (length p) (c # cs)" by simp_all
    moreover from True have "c # cs = p @ drop (length p) (c # cs)"
      unfolding startsWith_def by (metis append_take_drop_id)
    ultimately show ?thesis by simp
  next
    case False
    with Cons.prems obtain b' where "splitAtFirst p cs = Some (b', a)" "b = c # b'"
      by (auto split: option.splits)
    with Cons.IH show ?thesis by simp
  qed
qed

lemma splitAtFirst_first:
  "splitAtFirst p s = Some (b, a) \<Longrightarrow> s = b' @ p @ a' \<Longrightarrow> length b \<le> length b'"
proof (induction s arbitrary: b a b')
  case Nil
  then show ?case by (simp split: if_splits)
next
  case (Cons c cs)
  show ?case
  proof (cases "startsWith (c # cs) p")
    case True
    with Cons.prems(1) have "b = []" by simp
    then show ?thesis by simp
  next
    case False
    with Cons.prems(1) obtain b0 where b0: "splitAtFirst p cs = Some (b0, a)" "b = c # b0"
      by (auto split: option.splits)
    have "b' \<noteq> []"
    proof
      assume "b' = []"
      with Cons.prems(2) have "startsWith (c # cs) p" by (simp add: startsWith_def)
      with False show False by simp
    qed
    then obtain b1 where b1: "b' = c # b1" using Cons.prems(2) by (cases b') auto
    with Cons.prems(2) have "cs = b1 @ p @ a'" by simp
    from Cons.IH[OF b0(1) this] b0(2) b1 show ?thesis by simp
  qed
qed

lemma splitAtFirst_exists:
  "\<exists>b a. splitAtFirst p (pre @ p @ post) = Some (b, a)"
proof (induction pre)
  case Nil
  have sw: "startsWith (p @ post) p" by (simp add: startsWith_def)
  show ?case
  proof (cases "p @ post")
    case Nil
    then show ?thesis by simp
  next
    case (Cons c cs)
    with sw have "startsWith (c # cs) p" by simp
    with Cons show ?thesis by simp
  qed
next
  case (Cons c pre)
  then show ?case by auto
qed

lemma getTerminalCoords_table:
  assumes "(name, d) \<in> set (spec_terminal_table (comp_type c))"
  shows "getTerminalCoords (Some c) (Some name) = Some (offsetFrom c d)"
proof -
  have "comp_type c \<in> set [''battery'', ''resistor'', ''led'', ''switch'', ''transformer'', ''breaker'']"
    using assms unfolding spec_terminal_table_def by (auto split: if_splits)
  then consider "comp_type c = ''battery''" | "comp_type c = ''resistor''" | "comp_type c = ''led''"
    | "comp_type c = ''switch''" | "comp_type c = ''transformer''" | "comp_type c = ''breaker''"
    unfolding list.set insert_iff empty_iff by (elim disjE) blast+
  then show ?thesis
    using assms
    by cases (auto simp: spec_terminal_table_def getTerminalCoords_def offsetFrom_def number_sub_Num)
qed

lemma getTerminalCoords_bus:
  assumes "comp_type c = ''bus''"
  shows "getTerminalCoords (Some c) (Some t) =
     Some \<lparr>coord_x = comp_x c + (if parseFloat t = NaN then Num 0 else parseFloat t), coord_y = comp_y c\<rparr>"
  using assms by (simp add: getTerminalCoords_def toString_terminal_def isNaN_def Let_def)

lemma parseFloat_7: "parseFloat ''7'' = Num 7"
  by (simp add: parseFloat_def readSign_def startsWith_def strDecimalLiteral_def
      whiteSpaceLength_def isDigit_def digitsValue_def exponentPart_def scale10_def)

lemma parseFloat_left: "parseFloat ''left'' = NaN"
  by (simp add: parseFloat_def readSign_def startsWith_def strDecimalLiteral_def
      whiteSpaceLength_def isDigit_def digitsValue_def exponentPart_def scale10_def)

section \<open>The terminal table\<close>

text \<open>
  C2, as the code has it. A name of the table resolves to the position moved by its
  tabulated offset; on a bus a terminal that reads as a number moves the position along
  the bar, and any other terminal leaves it at the centre; on a declared kind other than
  a bus, a name outside the table falls back to the kind's default terminal; a component
  of a declared kind resolves to a point for every terminal, named or \<^verbatim>\<open>undefined\<close>.
  The result is \<^verbatim>\<open>null\<close> exactly when there is no component, or the component's kind
  is none of the nine declared kinds.
\<close>

theorem terminal_table_resolution:
  "((name, d) \<in> set (spec_terminal_table (comp_type c)) \<longrightarrow>
      getTerminalCoords (Some c) (Some name) = Some (offsetFrom c d)) \<and>
   (comp_type c = ''bus'' \<and> parseFloat t \<noteq> NaN \<longrightarrow>
      getTerminalCoords (Some c) (Some t) =
        Some \<lparr>coord_x = comp_x c + parseFloat t, coord_y = comp_y c\<rparr>) \<and>
   (comp_type c = ''bus'' \<and> parseFloat t = NaN \<longrightarrow>
      getTerminalCoords (Some c) (Some t) = Some \<lparr>coord_x = comp_x c, coord_y = comp_y c\<rparr>) \<and>
   (comp_type c \<in> set ComponentType \<and> comp_type c \<noteq> ''bus'' \<and>
    t \<notin> set (map fst (spec_terminal_table (comp_type c))) \<longrightarrow>
      getTerminalCoords (Some c) (Some t) =
        Some (offsetFrom c (spec_default_offset (comp_type c)))) \<and>
   (comp_type c \<in> set ComponentType \<longrightarrow> getTerminalCoords (Some c) term \<noteq> None) \<and>
   (getTerminalCoords co term = None \<longleftrightarrow>
      co = None \<or> (\<exists>c'. co = Some c' \<and> comp_type c' \<notin> set ComponentType))"
proof (intro conjI impI)
  assume "(name, d) \<in> set (spec_terminal_table (comp_type c))"
  then show "getTerminalCoords (Some c) (Some name) = Some (offsetFrom c d)"
    by (rule getTerminalCoords_table)
next
  assume "comp_type c = ''bus'' \<and> parseFloat t \<noteq> NaN"
  then show "getTerminalCoords (Some c) (Some t) =
      Some \<lparr>coord_x = comp_x c + parseFloat t, coord_y = comp_y c\<rparr>"
    by (simp add: getTerminalCoords_bus)
next
  assume "comp_type c = ''bus'' \<and> parseFloat t = NaN"
  then show "getTerminalCoords (Some c) (Some t) = Some \<lparr>coord_x = comp_x c, coord_y = comp_y c\<rparr>"
    by (simp add: getTerminalCoords_bus)
next
  assume a: "comp_type c \<in> set ComponentType \<and> comp_type c \<noteq> ''bus'' \<and>
    t \<notin> set (map fst (spec_terminal_table (comp_type c)))"
  then have "\<not> spec_recognized (comp_type c) t" by (simp add: spec_recognized_def)
  with a show "getTerminalCoords (Some c) (Some t) =
      Some (offsetFrom c (spec_default_offset (comp_type c)))"
    by (simp add: getTerminalCoords_default)
next
  assume "comp_type c \<in> set ComponentType"
  then show "getTerminalCoords (Some c) term \<noteq> None"
    by (simp add: getTerminalCoords_None_iff)
next
  show "getTerminalCoords co term = None \<longleftrightarrow>
      co = None \<or> (\<exists>c'. co = Some c' \<and> comp_type c' \<notin> set ComponentType)"
    unfolding getTerminalCoords_None_iff by (cases co) simp_all
qed

text \<open>
  The theorem at a battery at (50, 50), a bus at (100, 80), the lookup of an id in a map
  that holds the battery alone, and a component of the undeclared kind \<^verbatim>\<open>capacitor\<close>.
\<close>

theorem terminal_table_resolution_witness:
  "getTerminalCoords (Some sample_battery) (Some ''positive'') =
     Some \<lparr>coord_x = Num 50, coord_y = Num 30\<rparr> \<and>
   getTerminalCoords (Some sample_battery) (Some ''up'') =
     Some \<lparr>coord_x = Num 50, coord_y = Num 70\<rparr> \<and>
   getTerminalCoords (Some sample_bus) (Some ''7'') =
     Some \<lparr>coord_x = Num 107, coord_y = Num 80\<rparr> \<and>
   getTerminalCoords (Some sample_bus) (Some ''left'') =
     Some \<lparr>coord_x = Num 100, coord_y = Num 80\<rparr> \<and>
   getTerminalCoords (Some sample_battery) None \<noteq> None \<and>
   getTerminalCoords (componentMap [sample_battery] ''b2'') (Some ''positive'') = None \<and>
   getTerminalCoords (Some sample_capacitor) (Some ''in'') = None"
proof -
  note pf7 = parseFloat_7 and pfl = parseFloat_left
  have k: "comp_type sample_battery \<in> set ComponentType"
    by (simp add: sample_battery_def ComponentType_def)
  have 1: "getTerminalCoords (Some sample_battery) (Some ''positive'') =
      Some \<lparr>coord_x = Num 50, coord_y = Num 30\<rparr>"
    using terminal_table_resolution[of "''positive''" "(0, - 20)" sample_battery]
    by (simp add: sample_battery_def spec_terminal_table_def offsetFrom_def plus_number_def)
  have 2: "getTerminalCoords (Some sample_battery) (Some ''up'') =
      Some \<lparr>coord_x = Num 50, coord_y = Num 70\<rparr>"
    using terminal_table_resolution[of _ _ sample_battery "''up''"]
    by (simp add: sample_battery_def spec_terminal_table_def offsetFrom_def plus_number_def
        ComponentType_def spec_default_offset_def)
  have 3: "getTerminalCoords (Some sample_bus) (Some ''7'') =
      Some \<lparr>coord_x = Num 107, coord_y = Num 80\<rparr>"
    using terminal_table_resolution[of _ _ sample_bus "''7''"] pf7
    by (simp add: sample_bus_def plus_number_def)
  have 4: "getTerminalCoords (Some sample_bus) (Some ''left'') =
      Some \<lparr>coord_x = Num 100, coord_y = Num 80\<rparr>"
    using terminal_table_resolution[of _ _ sample_bus "''left''"] pfl
    by (simp add: sample_bus_def)
  have 5: "getTerminalCoords (Some sample_battery) None \<noteq> None"
    using terminal_table_resolution[of _ _ sample_battery _ None] k by simp
  have m: "componentMap [sample_battery] ''b2'' = None"
    by (simp add: componentMap_def sample_battery_def)
  have 6: "getTerminalCoords (componentMap [sample_battery] ''b2'') (Some ''positive'') = None"
    using terminal_table_resolution[of _ _ _ _ "Some ''positive''" "componentMap [sample_battery] ''b2''"] m
    by simp
  have 7: "getTerminalCoords (Some sample_capacitor) (Some ''in'') = None"
    using terminal_table_resolution[of _ _ _ _ "Some ''in''" "Some sample_capacitor"]
    by (simp add: sample_capacitor_def ComponentType_def)
  from 1 2 3 4 5 6 7 show ?thesis by simp
qed

text \<open>
  C2 as stated fails for a component that exists and whose kind is not declared (the
  data is parsed JSON under an unchecked cast): the map holds it under its id, and its
  terminal takes the \<^verbatim>\<open>default\<close> branch and resolves to \<^verbatim>\<open>null\<close>.
\<close>

theorem undeclared_kind_resolves_to_null:
  "componentMap [sample_capacitor] ''c1'' = Some sample_capacitor \<and>
   getTerminalCoords (componentMap [sample_capacitor] ''c1'') (Some ''in'') = None"
  by (simp add: componentMap_def sample_capacitor_def getTerminalCoords_def)

lemma parseFloat_12_5: "parseFloat ''12.5'' = Num 12.5"
  by (simp add: parseFloat_def readSign_def startsWith_def strDecimalLiteral_def
      whiteSpaceLength_def isDigit_def digitsValue_def exponentPart_def scale10_def)

lemma destructure_single: "destructure [a] = (a, None)"
  by (simp add: destructure_def)

lemma destructure_two: "destructure (a # b # rest) = (a, Some b)"
  by (simp add: destructure_def)

lemma endpointCoords_dotted:
  assumes "CHR ''.'' \<notin> set cid" and "CHR ''.'' \<notin> set t"
  shows "endpointCoords m (cid @ ''.'' @ t) = getTerminalCoords (m cid) (Some t)"
proof -
  have "split CHR ''.'' (cid @ ''.'' @ t) = [cid, t]"
    using assms by (simp add: split_append_sep split_no_sep)
  then show ?thesis by (simp add: endpointCoords_def destructure_def)
qed

lemma endpointCoords_plain:
  assumes "CHR ''.'' \<notin> set ref"
  shows "endpointCoords m ref = getTerminalCoords (m ref) None"
  using assms by (simp add: endpointCoords_def destructure_def split_no_sep)

section \<open>Terminals of a bus\<close>

text \<open>
  C7. On a bus at (x, y), a terminal string that \<^verbatim>\<open>parseFloat\<close> reads as a number t
  resolves to (x + t, y), and a string it does not read resolves to (x, y); the terminal
  \<^verbatim>\<open>-40\<close> on a bus with x = 100 resolves to (60, y). (\<^verbatim>\<open>parseFloat\<close> reads the longest
  numeric prefix, so \<^verbatim>\<open>12abc\<close> reads as 12.)
\<close>

theorem bus_terminal_offset:
  assumes "comp_type c = ''bus''"
  shows "(parseFloat t \<noteq> NaN \<longrightarrow>
            getTerminalCoords (Some c) (Some t) =
              Some \<lparr>coord_x = comp_x c + parseFloat t, coord_y = comp_y c\<rparr>) \<and>
         (parseFloat t = NaN \<longrightarrow>
            getTerminalCoords (Some c) (Some t) = Some \<lparr>coord_x = comp_x c, coord_y = comp_y c\<rparr>) \<and>
         (comp_x c = Num 100 \<longrightarrow>
            getTerminalCoords (Some c) (Some ''-40'') = Some \<lparr>coord_x = Num 60, coord_y = comp_y c\<rparr>)"
  using assms by (simp add: getTerminalCoords_bus parseFloat_minus_40 plus_number_def)

text \<open>The theorem at a bus at (100, 80), for the terminals \<^verbatim>\<open>12.5\<close>, \<^verbatim>\<open>left\<close> and \<^verbatim>\<open>-40\<close>.\<close>

theorem bus_terminal_offset_witness:
  "comp_type sample_bus = ''bus'' \<and> comp_x sample_bus = Num 100 \<and>
   parseFloat ''12.5'' = Num 12.5 \<and>
   getTerminalCoords (Some sample_bus) (Some ''12.5'') = Some \<lparr>coord_x = Num 112.5, coord_y = Num 80\<rparr> \<and>
   parseFloat ''left'' = NaN \<and>
   getTerminalCoords (Some sample_bus) (Some ''left'') = Some \<lparr>coord_x = Num 100, coord_y = Num 80\<rparr> \<and>
   getTerminalCoords (Some sample_bus) (Some ''-40'') = Some \<lparr>coord_x = Num 60, coord_y = Num 80\<rparr>"
proof -
  have b: "comp_type sample_bus = ''bus''" by (simp add: sample_bus_def)
  note pf = parseFloat_12_5
  show ?thesis
    using bus_terminal_offset[OF b, of "''12.5''"] bus_terminal_offset[OF b, of "''left''"]
      pf parseFloat_left
    by (simp add: sample_bus_def plus_number_def)
qed

section \<open>The moving contact of a switch\<close>

text \<open>
  C9. The arm of a switch, the fifth element of its symbol, is rotated about (-5, 0) by
  -30 when the state is \<^verbatim>\<open>open\<close> or absent and by 0 when it is \<^verbatim>\<open>closed\<close>; the symbol
  is a function of the state alone, and its other four elements do not depend on it.
  The terminals of a switch do not depend on its state: \<^verbatim>\<open>in\<close> is at (x - 30, y) and
  \<^verbatim>\<open>out\<close> at (x + 30, y).
\<close>

theorem switch_rotation:
  "switchRotation None = ''-30'' \<and>
   switchRotation (Some ''open'') = ''-30'' \<and>
   switchRotation (Some ''closed'') = ''0'' \<and>
   el_children (drawSwitch st) ! 4 =
     Element ''line'' [attr ''x1'' ''-5'', attr ''y1'' ''0'', attr ''x2'' ''25'', attr ''y2'' ''0'',
                       attr ''class'' ''component-body'',
                       (''transform'', [S ''rotate('', S (switchRotation st), S '' -5 0)''])] [] \<and>
   length (el_children (drawSwitch st)) = 5 \<and>
   take 4 (el_children (drawSwitch st)) = take 4 (el_children (drawSwitch st')) \<and>
   (comp_type c = ''switch'' \<longrightarrow>
      componentSvg c = Some (drawSwitch (comp_state c)) \<and>
      getTerminalCoords (Some (c\<lparr>comp_state := st\<rparr>)) t = getTerminalCoords (Some c) t \<and>
      getTerminalCoords (Some c) (Some ''in'') =
        Some \<lparr>coord_x = comp_x c - Num 30, coord_y = comp_y c\<rparr> \<and>
      getTerminalCoords (Some c) (Some ''out'') =
        Some \<lparr>coord_x = comp_x c + Num 30, coord_y = comp_y c\<rparr>)"
  by (simp add: switchRotation_def drawSwitch_def componentSvg_def getTerminalCoords_def)

text \<open>The theorem at a closed switch at (200, 50), and at the same switch opened.\<close>

theorem switch_rotation_witness:
  "comp_type sample_switch = ''switch'' \<and>
   componentSvg sample_switch = Some (drawSwitch (Some ''closed'')) \<and>
   el_children (drawSwitch (Some ''closed'')) ! 4 =
     Element ''line'' [attr ''x1'' ''-5'', attr ''y1'' ''0'', attr ''x2'' ''25'', attr ''y2'' ''0'',
                       attr ''class'' ''component-body'',
                       (''transform'', [S ''rotate('', S ''0'', S '' -5 0)''])] [] \<and>
   getTerminalCoords (Some (sample_switch\<lparr>comp_state := Some ''open''\<rparr>)) (Some ''in'') =
     Some \<lparr>coord_x = Num 170, coord_y = Num 50\<rparr> \<and>
   getTerminalCoords (Some (sample_switch\<lparr>comp_state := Some ''open''\<rparr>)) (Some ''in'') =
     getTerminalCoords (Some sample_switch) (Some ''in'')"
proof -
  have k: "comp_type sample_switch = ''switch''" by (simp add: sample_switch_def)
  have s: "comp_state sample_switch = Some ''closed''" by (simp add: sample_switch_def)
  have x: "comp_x sample_switch - Num 30 = Num 170" "comp_y sample_switch = Num 50"
    by (simp_all add: sample_switch_def minus_number_def)
  note closed = switch_rotation[of "Some ''closed''" None sample_switch "Some ''in''"]
  note opened = switch_rotation[of "Some ''open''" None sample_switch "Some ''in''"]
  have 1: "componentSvg sample_switch = Some (drawSwitch (Some ''closed''))"
    using closed k s by simp
  have 2: "el_children (drawSwitch (Some ''closed'')) ! 4 =
     Element ''line'' [attr ''x1'' ''-5'', attr ''y1'' ''0'', attr ''x2'' ''25'', attr ''y2'' ''0'',
                       attr ''class'' ''component-body'',
                       (''transform'', [S ''rotate('', S ''0'', S '' -5 0)''])] []"
    using closed by simp
  have 3: "getTerminalCoords (Some (sample_switch\<lparr>comp_state := Some ''open''\<rparr>)) (Some ''in'') =
     Some \<lparr>coord_x = Num 170, coord_y = Num 50\<rparr>"
    using opened k x by simp
  have 4: "getTerminalCoords (Some (sample_switch\<lparr>comp_state := Some ''open''\<rparr>)) (Some ''in'') =
     getTerminalCoords (Some sample_switch) (Some ''in'')"
    using opened k by simp
  from k 1 2 3 4 show ?thesis by simp
qed

section \<open>References without a terminal\<close>

text \<open>
  C10, as the code has it. A reference with no dot is taken whole as the component id,
  with the terminal \<^verbatim>\<open>undefined\<close>. When the map holds a component of a declared kind
  under that id, the end resolves to the kind's default terminal, so it is not skipped;
  when the component's kind is none of the nine declared kinds, the end resolves to
  \<^verbatim>\<open>null\<close>. Of a reference with two dots or more, only the first two parts are read.
\<close>

theorem reference_without_separator:
  "(CHR ''.'' \<notin> set ref \<longrightarrow> destructure (split CHR ''.'' ref) = (ref, None)) \<and>
   (CHR ''.'' \<notin> set ref \<and> m ref = Some c \<and> comp_type c \<in> set ComponentType \<longrightarrow>
      endpointCoords m ref = Some (offsetFrom c (spec_default_offset (comp_type c)))) \<and>
   (CHR ''.'' \<notin> set ref \<and> m ref = Some c \<and> comp_type c \<notin> set ComponentType \<longrightarrow>
      endpointCoords m ref = None) \<and>
   (CHR ''.'' \<notin> set a \<and> CHR ''.'' \<notin> set b \<longrightarrow>
      destructure (split CHR ''.'' (a @ ''.'' @ b @ ''.'' @ rest)) = (a, Some b) \<and>
      endpointCoords m (a @ ''.'' @ b @ ''.'' @ rest) = endpointCoords m (a @ ''.'' @ b))"
proof (intro conjI impI)
  assume "CHR ''.'' \<notin> set ref"
  then show "destructure (split CHR ''.'' ref) = (ref, None)"
    by (simp add: split_no_sep destructure_single)
next
  assume a: "CHR ''.'' \<notin> set ref \<and> m ref = Some c \<and> comp_type c \<in> set ComponentType"
  then have "endpointCoords m ref = getTerminalCoords (m ref) None"
    by (simp add: endpointCoords_plain)
  with a show "endpointCoords m ref = Some (offsetFrom c (spec_default_offset (comp_type c)))"
    by (simp add: getTerminalCoords_undefined)
next
  assume a: "CHR ''.'' \<notin> set ref \<and> m ref = Some c \<and> comp_type c \<notin> set ComponentType"
  then have "endpointCoords m ref = getTerminalCoords (m ref) None"
    by (simp add: endpointCoords_plain)
  with a show "endpointCoords m ref = None"
    by (simp add: getTerminalCoords_None_iff)
next
  assume ab: "CHR ''.'' \<notin> set a \<and> CHR ''.'' \<notin> set b"
  have long: "split CHR ''.'' (a @ ''.'' @ b @ ''.'' @ rest) = a # b # split CHR ''.'' rest"
    using ab by (simp add: split_append_sep)
  have short: "split CHR ''.'' (a @ ''.'' @ b) = [a, b]"
    using ab by (simp add: split_append_sep split_no_sep)
  show "destructure (split CHR ''.'' (a @ ''.'' @ b @ ''.'' @ rest)) = (a, Some b)"
    unfolding long by (rule destructure_two)
  show "endpointCoords m (a @ ''.'' @ b @ ''.'' @ rest) = endpointCoords m (a @ ''.'' @ b)"
    unfolding endpointCoords_def long short by (simp add: destructure_two)
qed

text \<open>
  The theorem at the reference \<^verbatim>\<open>b1\<close> to a battery at (50, 50), at the reference \<^verbatim>\<open>c1\<close>
  to a component of the undeclared kind \<^verbatim>\<open>capacitor\<close>, and at the reference
  \<^verbatim>\<open>bus1.-40.5\<close>, which is read as \<^verbatim>\<open>bus1.-40\<close>.
\<close>

theorem reference_without_separator_witness:
  "destructure (split CHR ''.'' ''b1'') = (''b1'', None) \<and>
   endpointCoords (componentMap [sample_battery]) ''b1'' =
     Some \<lparr>coord_x = Num 50, coord_y = Num 70\<rparr> \<and>
   endpointCoords (componentMap [sample_capacitor]) ''c1'' = None \<and>
   destructure (split CHR ''.'' ''bus1.-40.5'') = (''bus1'', Some ''-40'') \<and>
   endpointCoords (componentMap [sample_bus]) ''bus1.-40.5'' =
     endpointCoords (componentMap [sample_bus]) ''bus1.-40''"
proof -
  have m: "componentMap [sample_battery] ''b1'' = Some sample_battery"
    by (simp add: componentMap_def sample_battery_def)
  have k: "comp_type sample_battery \<in> set ComponentType"
    by (simp add: sample_battery_def ComponentType_def)
  have mc: "componentMap [sample_capacitor] ''c1'' = Some sample_capacitor"
    by (simp add: componentMap_def sample_capacitor_def)
  have kc: "comp_type sample_capacitor \<notin> set ComponentType"
    by (simp add: sample_capacitor_def ComponentType_def)
  have 1: "destructure (split CHR ''.'' ''b1'') = (''b1'', None)"
    using reference_without_separator[of "''b1''"] by simp
  have 2: "endpointCoords (componentMap [sample_battery]) ''b1'' =
      Some \<lparr>coord_x = Num 50, coord_y = Num 70\<rparr>"
    using reference_without_separator[of "''b1''" "componentMap [sample_battery]" sample_battery] m k
    by (simp add: offsetFrom_def spec_default_offset_def sample_battery_def plus_number_def)
  have 3: "endpointCoords (componentMap [sample_capacitor]) ''c1'' = None"
    using reference_without_separator[of "''c1''" "componentMap [sample_capacitor]" sample_capacitor]
      mc kc
    by simp
  have 4: "destructure (split CHR ''.'' ''bus1.-40.5'') = (''bus1'', Some ''-40'') \<and>
     endpointCoords (componentMap [sample_bus]) ''bus1.-40.5'' =
       endpointCoords (componentMap [sample_bus]) ''bus1.-40''"
    using reference_without_separator[of _ "componentMap [sample_bus]" _ "''bus1''" "''-40''" "''5''"]
    by simp
  from 1 2 3 4 show ?thesis by simp
qed

text \<open>
  C10 as stated fails for a reference with no dot to a component that exists and whose
  kind is not declared: the end resolves to \<^verbatim>\<open>null\<close>, and the connection from it to a
  terminal that resolves is skipped.
\<close>

theorem reference_to_undeclared_kind_skipped:
  "CHR ''.'' \<notin> set ''c1'' \<and>
   componentMap [sample_capacitor, sample_battery] ''c1'' = Some sample_capacitor \<and>
   endpointCoords (componentMap [sample_capacitor, sample_battery]) ''c1'' = None \<and>
   endpointCoords (componentMap [sample_capacitor, sample_battery]) ''b1.positive'' =
     Some \<lparr>coord_x = Num 50, coord_y = Num 30\<rparr> \<and>
   drawConnections (componentMap [sample_capacitor, sample_battery])
     [\<lparr>conn_from = ''c1'', conn_to = ''b1.positive''\<rparr>] [] = []"
  by (simp add: componentMap_def sample_capacitor_def sample_battery_def endpointCoords_def
      destructure_def getTerminalCoords_def drawConnection_def minus_number_def)

lemma svgChildren_split:
  "svgChildren d =
     drawConnections (componentMap (components d)) (connections d) [] @
     map drawComponent (components d)"
  by (simp add: svgChildren_def drawComponents_append)

lemma endpointCoords_missing:
  "m (fst (destructure (split CHR ''.'' ref))) = None \<Longrightarrow> endpointCoords m ref = None"
  by (cases "destructure (split CHR ''.'' ref)") (simp add: endpointCoords_def getTerminalCoords_def)

lemma drawConnections_skip:
  assumes "endpointCoords m (conn_from bad) = None \<or> endpointCoords m (conn_to bad) = None"
  shows "drawConnections m (pre @ bad # post) [] = drawConnections m (pre @ post) []"
proof -
  have "drawConnections m (pre @ bad # post) [] =
          drawConnections m post (drawConnection m bad (drawConnections m pre []))"
    by (simp add: drawConnections_app)
  also have "\<dots> = drawConnections m post (drawConnections m pre [])"
    using drawConnection_dangling[OF assms] by simp
  finally show ?thesis by (simp add: drawConnections_app)
qed

lemma drawConnections_resolved_map:
  "\<forall>conn \<in> set conns. endpointCoords m (conn_from conn) \<noteq> None \<and> endpointCoords m (conn_to conn) \<noteq> None \<Longrightarrow>
   drawConnections m conns kids =
     kids @ map (\<lambda>conn. wire (the (endpointCoords m (conn_from conn)))
                          (the (endpointCoords m (conn_to conn)))) conns"
proof (induction conns arbitrary: kids)
  case Nil
  then show ?case by simp
next
  case (Cons conn conns)
  from Cons.prems obtain f t where ft: "endpointCoords m (conn_from conn) = Some f"
    "endpointCoords m (conn_to conn) = Some t" by auto
  then have "drawConnection m conn kids = kids @ [wire f t]" by (rule drawConnection_resolved)
  then show ?case using Cons.IH[of "kids @ [wire f t]"] Cons.prems ft by simp
qed

lemma not_group_wire: "\<not> isComponentGroup (wire f t)"
  by (simp add: isComponentGroup_def wire_def)

lemma not_wire_drawComponent: "\<not> isWire (drawComponent c)"
  by (simp add: isWire_def drawComponent_def)

lemma renderDiagram_children: "el_children (hd (el_children (renderDiagram d))) = svgChildren d"
  by (simp add: renderDiagram_def)

lemma sample_components: "components sample_diagram = [sample_battery, sample_resistor]"
  by (simp add: sample_diagram_def)

lemma sample_map:
  "componentMap [sample_battery, sample_resistor] =
     [''b1'' \<mapsto> sample_battery, ''r1'' \<mapsto> sample_resistor]"
  by (simp add: componentMap_def sample_battery_def sample_resistor_def)

lemma sample_endpoints:
  "endpointCoords [''b1'' \<mapsto> sample_battery, ''r1'' \<mapsto> sample_resistor] ''b1.positive'' = Some \<lparr>coord_x = Num 50, coord_y = Num 30\<rparr>"
  "endpointCoords [''b1'' \<mapsto> sample_battery, ''r1'' \<mapsto> sample_resistor] ''r1.in'' = Some \<lparr>coord_x = Num 120, coord_y = Num 50\<rparr>"
  "endpointCoords [''b1'' \<mapsto> sample_battery, ''r1'' \<mapsto> sample_resistor] ''r1.out'' = Some \<lparr>coord_x = Num 180, coord_y = Num 50\<rparr>"
  "endpointCoords [''b1'' \<mapsto> sample_battery, ''r1'' \<mapsto> sample_resistor] ''b1.negative'' = Some \<lparr>coord_x = Num 50, coord_y = Num 70\<rparr>"
  "endpointCoords [''b1'' \<mapsto> sample_battery, ''r1'' \<mapsto> sample_resistor] ''ghost.out'' = None"
  by (simp_all add: endpointCoords_def destructure_def getTerminalCoords_def
      sample_battery_def sample_resistor_def plus_number_def minus_number_def)

lemma sample_children:
  "svgChildren sample_diagram =
     [wire \<lparr>coord_x = Num 50, coord_y = Num 30\<rparr> \<lparr>coord_x = Num 120, coord_y = Num 50\<rparr>,
      wire \<lparr>coord_x = Num 180, coord_y = Num 50\<rparr> \<lparr>coord_x = Num 50, coord_y = Num 70\<rparr>,
      drawComponent sample_battery, drawComponent sample_resistor]"
  unfolding svgChildren_split sample_components sample_map
  by (simp add: sample_diagram_def drawConnection_def sample_endpoints)

section \<open>Terminal names outside the table\<close>

text \<open>
  C1, as the code has it. For a component of one of the nine declared kinds, a terminal
  name that the table does not recognize for the kind does not resolve to \<^verbatim>\<open>null\<close>: it
  resolves to the position of the kind's default terminal. A connection with such an
  end is not skipped on its account: when its other end resolves, the wire between that
  position and the other end is appended.
\<close>

theorem unrecognized_terminal_falls_back:
  assumes "comp_type c \<in> set ComponentType" and "\<not> spec_recognized (comp_type c) t"
  shows "getTerminalCoords (Some c) (Some t) =
           Some (offsetFrom c (spec_default_offset (comp_type c))) \<and>
         (CHR ''.'' \<notin> set cid \<and> CHR ''.'' \<notin> set t \<and> m cid = Some c \<longrightarrow>
            endpointCoords m (cid @ ''.'' @ t) =
              Some (offsetFrom c (spec_default_offset (comp_type c))) \<and>
            (conn_from conn = cid @ ''.'' @ t \<and> endpointCoords m (conn_to conn) = Some other \<longrightarrow>
               drawConnection m conn kids =
                 kids @ [wire (offsetFrom c (spec_default_offset (comp_type c))) other]) \<and>
            (conn_to conn = cid @ ''.'' @ t \<and> endpointCoords m (conn_from conn) = Some other \<longrightarrow>
               drawConnection m conn kids =
                 kids @ [wire other (offsetFrom c (spec_default_offset (comp_type c)))]))"
proof -
  let ?D = "offsetFrom c (spec_default_offset (comp_type c))"
  have g: "getTerminalCoords (Some c) (Some t) = Some ?D"
    using assms by (rule getTerminalCoords_default)
  have e: "endpointCoords m (cid @ ''.'' @ t) = Some ?D"
    if "CHR ''.'' \<notin> set cid \<and> CHR ''.'' \<notin> set t \<and> m cid = Some c"
  proof -
    from that have "endpointCoords m (cid @ ''.'' @ t) = getTerminalCoords (m cid) (Some t)"
      by (intro endpointCoords_dotted) simp_all
    with that g show ?thesis by simp
  qed
  show ?thesis
  proof (intro conjI impI)
    show "getTerminalCoords (Some c) (Some t) = Some ?D" by (rule g)
  next
    assume a: "CHR ''.'' \<notin> set cid \<and> CHR ''.'' \<notin> set t \<and> m cid = Some c"
    then show "endpointCoords m (cid @ ''.'' @ t) = Some ?D" by (rule e)
  next
    assume a: "CHR ''.'' \<notin> set cid \<and> CHR ''.'' \<notin> set t \<and> m cid = Some c"
      and b: "conn_from conn = cid @ ''.'' @ t \<and> endpointCoords m (conn_to conn) = Some other"
    from e[OF a] b have "endpointCoords m (conn_from conn) = Some ?D" by simp
    moreover from b have "endpointCoords m (conn_to conn) = Some other" ..
    ultimately show "drawConnection m conn kids = kids @ [wire ?D other]"
      by (rule drawConnection_resolved)
  next
    assume a: "CHR ''.'' \<notin> set cid \<and> CHR ''.'' \<notin> set t \<and> m cid = Some c"
      and b: "conn_to conn = cid @ ''.'' @ t \<and> endpointCoords m (conn_from conn) = Some other"
    from b have "endpointCoords m (conn_from conn) = Some other" ..
    moreover from e[OF a] b have "endpointCoords m (conn_to conn) = Some ?D" by simp
    ultimately show "drawConnection m conn kids = kids @ [wire other ?D]"
      by (rule drawConnection_resolved)
  qed
qed

text \<open>
  The theorem at a battery at (50, 50), the terminal name \<^verbatim>\<open>foo\<close>, and the connection
  from \<^verbatim>\<open>b1.foo\<close> to the \<^verbatim>\<open>in\<close> terminal of a resistor at (150, 50).
\<close>

theorem unrecognized_terminal_falls_back_witness:
  "comp_type sample_battery \<in> set ComponentType \<and>
   \<not> spec_recognized (comp_type sample_battery) ''foo'' \<and>
   getTerminalCoords (Some sample_battery) (Some ''foo'') =
     Some \<lparr>coord_x = Num 50, coord_y = Num 70\<rparr> \<and>
   drawConnection [''b1'' \<mapsto> sample_battery, ''r1'' \<mapsto> sample_resistor]
     \<lparr>conn_from = ''b1.foo'', conn_to = ''r1.in''\<rparr> [] =
     [wire \<lparr>coord_x = Num 50, coord_y = Num 70\<rparr> \<lparr>coord_x = Num 120, coord_y = Num 50\<rparr>]"
proof -
  let ?m = "[''b1'' \<mapsto> sample_battery, ''r1'' \<mapsto> sample_resistor]"
  let ?conn = "\<lparr>conn_from = ''b1.foo'', conn_to = ''r1.in''\<rparr>"
  have h1: "comp_type sample_battery \<in> set ComponentType"
    by (simp add: sample_battery_def ComponentType_def)
  have h2: "\<not> spec_recognized (comp_type sample_battery) ''foo''"
    by (simp add: sample_battery_def spec_recognized_def spec_terminal_table_def)
  have d: "offsetFrom sample_battery (spec_default_offset (comp_type sample_battery)) =
             \<lparr>coord_x = Num 50, coord_y = Num 70\<rparr>"
    by (simp add: offsetFrom_def spec_default_offset_def sample_battery_def plus_number_def)
  note r = unrecognized_terminal_falls_back[OF h1 h2, of "''b1''" ?m ?conn
      "\<lparr>coord_x = Num 120, coord_y = Num 50\<rparr>" "[]"]
  have 1: "getTerminalCoords (Some sample_battery) (Some ''foo'') =
     Some \<lparr>coord_x = Num 50, coord_y = Num 70\<rparr>"
    using r[THEN conjunct1] d by simp
  have 2: "drawConnection ?m ?conn [] =
     [wire \<lparr>coord_x = Num 50, coord_y = Num 70\<rparr> \<lparr>coord_x = Num 120, coord_y = Num 50\<rparr>]"
    using r[THEN conjunct2] d by (simp add: sample_endpoints)
  from h1 h2 1 2 show ?thesis by simp
qed

text \<open>
  C1 as stated fails there: the kind is declared, the name is not one of the battery's,
  and the result is not \<^verbatim>\<open>null\<close>.
\<close>

theorem unrecognized_terminal_not_null:
  "comp_type sample_battery \<in> set ComponentType \<and>
   \<not> spec_recognized (comp_type sample_battery) ''foo'' \<and>
   getTerminalCoords (Some sample_battery) (Some ''foo'') \<noteq> None"
  by (simp add: sample_battery_def ComponentType_def spec_recognized_def spec_terminal_table_def
      getTerminalCoords_def)

section \<open>A connection to a component that does not exist\<close>

text \<open>
  C6. In a diagram whose connections are N connections with both ends resolving and one
  connection that names an id no component has, the canvas receives exactly the N wires
  of the other connections, each between its two resolved ends and in their order, and
  after them one group for every component: the dangling connection adds nothing, and
  nothing else is lost. (On data of the declared shape no step of \<^verbatim>\<open>renderDiagram\<close>
  throws, so the model is a total function.)
\<close>

theorem dangling_reference_skipped:
  assumes "connections d = pre @ bad # post"
    and "componentMap (components d) (fst (destructure (split CHR ''.'' (conn_from bad)))) = None \<or>
         componentMap (components d) (fst (destructure (split CHR ''.'' (conn_to bad)))) = None"
    and "\<forall>conn \<in> set (pre @ post).
           endpointCoords (componentMap (components d)) (conn_from conn) \<noteq> None \<and>
           endpointCoords (componentMap (components d)) (conn_to conn) \<noteq> None"
  shows "svgChildren d =
           map (\<lambda>conn. wire (the (endpointCoords (componentMap (components d)) (conn_from conn)))
                             (the (endpointCoords (componentMap (components d)) (conn_to conn))))
               (pre @ post) @
           map drawComponent (components d) \<and>
         length (filter isWire (svgChildren d)) = length pre + length post \<and>
         length (filter isComponentGroup (svgChildren d)) = length (components d)"
proof -
  let ?m = "componentMap (components d)"
  let ?w = "\<lambda>conn. wire (the (endpointCoords ?m (conn_from conn))) (the (endpointCoords ?m (conn_to conn)))"
  have bad: "endpointCoords ?m (conn_from bad) = None \<or> endpointCoords ?m (conn_to bad) = None"
    using assms(2)
  proof
    assume "?m (fst (destructure (split CHR ''.'' (conn_from bad)))) = None"
    then show ?thesis by (simp add: endpointCoords_missing)
  next
    assume "?m (fst (destructure (split CHR ''.'' (conn_to bad)))) = None"
    then show ?thesis by (simp add: endpointCoords_missing)
  qed
  have "drawConnections ?m (connections d) [] = drawConnections ?m (pre @ post) []"
    unfolding assms(1) using bad by (rule drawConnections_skip)
  also have "\<dots> = map ?w (pre @ post)"
    using drawConnections_resolved_map[OF assms(3), of "[]"] by simp
  finally have ws: "drawConnections ?m (connections d) [] = map ?w (pre @ post)" .
  have kids: "svgChildren d = map ?w (pre @ post) @ map drawComponent (components d)"
    unfolding svgChildren_split ws ..
  have fw1: "filter isWire (map ?w (pre @ post)) = map ?w (pre @ post)"
    by (simp add: filter_map comp_def isWire_wire)
  have fw2: "filter isWire (map drawComponent (components d)) = []"
    by (simp add: filter_map comp_def not_wire_drawComponent)
  have fg1: "filter isComponentGroup (map ?w (pre @ post)) = []"
    by (simp add: filter_map comp_def not_group_wire)
  have fg2: "filter isComponentGroup (map drawComponent (components d)) = map drawComponent (components d)"
    by (simp add: filter_map comp_def isComponentGroup_drawComponent)
  have "length (filter isWire (svgChildren d)) = length pre + length post"
    unfolding kids filter_append fw1 fw2 by simp
  moreover have "length (filter isComponentGroup (svgChildren d)) = length (components d)"
    unfolding kids filter_append fg1 fg2 by simp
  ultimately show ?thesis using kids by simp
qed

text \<open>
  The theorem at a battery and a resistor with three connections, the second from the
  unknown id \<^verbatim>\<open>ghost\<close>: two wires, two groups.
\<close>

theorem dangling_reference_skipped_witness:
  "svgChildren sample_diagram =
     [wire \<lparr>coord_x = Num 50, coord_y = Num 30\<rparr> \<lparr>coord_x = Num 120, coord_y = Num 50\<rparr>,
      wire \<lparr>coord_x = Num 180, coord_y = Num 50\<rparr> \<lparr>coord_x = Num 50, coord_y = Num 70\<rparr>,
      drawComponent sample_battery, drawComponent sample_resistor] \<and>
   length (filter isWire (svgChildren sample_diagram)) = 2 \<and>
   length (filter isComponentGroup (svgChildren sample_diagram)) = 2"
proof -
  let ?m = "componentMap (components sample_diagram)"
  let ?pre = "[\<lparr>conn_from = ''b1.positive'', conn_to = ''r1.in''\<rparr>]"
  let ?bad = "\<lparr>conn_from = ''ghost.out'', conn_to = ''r1.out''\<rparr>"
  let ?post = "[\<lparr>conn_from = ''r1.out'', conn_to = ''b1.negative''\<rparr>]"
  have h1: "connections sample_diagram = ?pre @ ?bad # ?post"
    by (simp add: sample_diagram_def)
  have "?m (fst (destructure (split CHR ''.'' (conn_from ?bad)))) = None"
    unfolding sample_components sample_map by (simp add: destructure_def)
  then have h2: "?m (fst (destructure (split CHR ''.'' (conn_from ?bad)))) = None \<or>
         ?m (fst (destructure (split CHR ''.'' (conn_to ?bad)))) = None" ..
  have h3: "\<forall>conn \<in> set (?pre @ ?post).
           endpointCoords ?m (conn_from conn) \<noteq> None \<and> endpointCoords ?m (conn_to conn) \<noteq> None"
    unfolding sample_components sample_map by (simp add: sample_endpoints)
  have cs: "components sample_diagram = [sample_battery, sample_resistor]"
    by (simp add: sample_diagram_def)
  note r = dangling_reference_skipped[OF h1 h2 h3]
  have "svgChildren sample_diagram =
     [wire \<lparr>coord_x = Num 50, coord_y = Num 30\<rparr> \<lparr>coord_x = Num 120, coord_y = Num 50\<rparr>,
      wire \<lparr>coord_x = Num 180, coord_y = Num 50\<rparr> \<lparr>coord_x = Num 50, coord_y = Num 70\<rparr>,
      drawComponent sample_battery, drawComponent sample_resistor]"
    using r[THEN conjunct1] unfolding cs sample_map by (simp add: sample_endpoints)
  moreover have "length (filter isWire (svgChildren sample_diagram)) = 2"
    using r[THEN conjunct2, THEN conjunct1] by simp
  moreover have "length (filter isComponentGroup (svgChildren sample_diagram)) = 2"
    using r[THEN conjunct2, THEN conjunct2] unfolding cs by simp
  ultimately show ?thesis by simp
qed

section \<open>The order of drawing\<close>

text \<open>
  C8. In the child list of the canvas, which is the order of drawing, every wire stands
  before every group of a component (the group holds the component's symbol and its
  label): both loops append, and the loop over the connections runs first.
\<close>

theorem wires_before_components:
  assumes "i < length (svgChildren d)" and "j < length (svgChildren d)"
    and "isWire (svgChildren d ! i)" and "isComponentGroup (svgChildren d ! j)"
  shows "i < j"
proof -
  let ?ws = "drawConnections (componentMap (components d)) (connections d) []"
  let ?gs = "map drawComponent (components d)"
  have kids: "svgChildren d = ?ws @ ?gs" by (rule svgChildren_split)
  have wires: "\<forall>e \<in> set ?ws. isWire e" by (rule drawConnections_wires) simp
  have groups: "\<forall>e \<in> set ?gs. isComponentGroup e" by (simp add: isComponentGroup_drawComponent)
  have "i < length ?ws"
  proof (rule ccontr)
    assume "\<not> i < length ?ws"
    then have "svgChildren d ! i = ?gs ! (i - length ?ws)" "i - length ?ws < length ?gs"
      using assms(1) unfolding kids by (simp_all add: nth_append)
    then have "isComponentGroup (svgChildren d ! i)" by (simp add: isComponentGroup_drawComponent)
    with assms(3) wire_not_group show False by blast
  qed
  moreover have "length ?ws \<le> j"
  proof (rule ccontr)
    assume "\<not> length ?ws \<le> j"
    then have "svgChildren d ! j = ?ws ! j" "j < length ?ws"
      unfolding kids by (simp_all add: nth_append)
    then have "isWire (svgChildren d ! j)" using wires nth_mem[of j ?ws] by simp
    with assms(4) wire_not_group show False by blast
  qed
  ultimately show ?thesis by simp
qed

text \<open>The theorem at the sample diagram: its second wire, at index 1, and its first group, at 2.\<close>

theorem wires_before_components_witness:
  "length (svgChildren sample_diagram) = 4 \<and>
   isWire (svgChildren sample_diagram ! 1) \<and>
   isComponentGroup (svgChildren sample_diagram ! 2) \<and> (1::nat) < 2"
proof -
  have h1: "1 < length (svgChildren sample_diagram)" by (simp add: sample_children)
  have h2: "2 < length (svgChildren sample_diagram)" by (simp add: sample_children)
  have h3: "isWire (svgChildren sample_diagram ! 1)" by (simp add: sample_children isWire_wire)
  have h4: "isComponentGroup (svgChildren sample_diagram ! 2)"
    by (simp add: sample_children isComponentGroup_drawComponent)
  have "(1::nat) < 2" using h1 h2 h3 h4 by (rule wires_before_components)
  then show ?thesis using h3 h4 by (simp add: sample_children)
qed

lemma getProp_truthy: "getProp v k = Some x \<Longrightarrow> truthy v"
  by (cases v) (simp_all add: getProp_def)

lemma parsedJson_whole: "JSON_parse s = Some v \<Longrightarrow> parsedJson s = Some v"
  by (simp add: parsedJson_def)

lemma parsedJson_fenced:
  "JSON_parse s = None \<Longrightarrow> jsonMatch s = Some inner \<Longrightarrow>
   parsedJson s = (if inner \<noteq> [] then JSON_parse inner else None)"
  by (simp add: parsedJson_def)

lemma parsedJson_none:
  assumes "JSON_parse s = None" and "\<forall>inner. jsonMatch s = Some inner \<longrightarrow> JSON_parse inner = None"
  shows "parsedJson s = None"
proof (cases "jsonMatch s")
  case None
  with assms(1) show ?thesis by (simp add: parsedJson_def)
next
  case (Some inner)
  with assms(2) have "JSON_parse inner = None" by simp
  with assms(1) Some show ?thesis by (simp add: parsedJson_def)
qed

lemma jsonMatch_Some:
  assumes "jsonMatch s = Some inner"
  shows "\<exists>pre post. s = pre @ ''```json\<newline>'' @ inner @ ''\<newline>```'' @ post \<and>
           (\<forall>pre' r. s = pre' @ ''```json\<newline>'' @ r \<longrightarrow> length pre \<le> length pre') \<and>
           (\<forall>inner' r. inner @ ''\<newline>```'' @ post = inner' @ ''\<newline>```'' @ r \<longrightarrow>
              length inner \<le> length inner')"
proof -
  from assms obtain pre rest where 1: "splitAtFirst ''```json\<newline>'' s = Some (pre, rest)"
    by (auto simp: jsonMatch_def split: option.splits)
  with assms obtain post where 2: "splitAtFirst ''\<newline>```'' rest = Some (inner, post)"
    by (auto simp: jsonMatch_def split: option.splits)
  have s: "s = pre @ ''```json\<newline>'' @ rest" using 1 by (rule splitAtFirst_Some)
  have r: "rest = inner @ ''\<newline>```'' @ post" using 2 by (rule splitAtFirst_Some)
  have f1: "\<forall>pre' r. s = pre' @ ''```json\<newline>'' @ r \<longrightarrow> length pre \<le> length pre'"
    using splitAtFirst_first[OF 1] by blast
  have f2: "\<forall>inner' r'. inner @ ''\<newline>```'' @ post = inner' @ ''\<newline>```'' @ r' \<longrightarrow>
              length inner \<le> length inner'"
    using splitAtFirst_first[OF 2] unfolding r by blast
  show ?thesis using s r f1 f2 by blast
qed

lemma splitAtFirst_twice:
  "\<exists>b a i p. splitAtFirst opn (pre @ opn @ body @ cls @ post) = Some (b, a) \<and>
             splitAtFirst cls a = Some (i, p)"
proof -
  let ?s = "pre @ opn @ body @ cls @ post"
  obtain b a where 1: "splitAtFirst opn ?s = Some (b, a)"
    using splitAtFirst_exists[of opn pre "body @ cls @ post"] by blast
  have s: "?s = b @ opn @ a" using 1 by (rule splitAtFirst_Some)
  have le: "length b \<le> length pre"
    using splitAtFirst_first[OF 1, of pre "body @ cls @ post"] by simp
  have "drop (length b + length opn) (b @ opn @ a) = a" by simp
  with s have "a = drop (length b + length opn) ((pre @ opn) @ body @ cls @ post)" by simp
  also have "\<dots> = (drop (length b + length opn) (pre @ opn) @ body) @ cls @ post"
    using le by simp
  finally obtain x where "a = x @ cls @ post" by blast
  then obtain i p where 2: "splitAtFirst cls a = Some (i, p)"
    using splitAtFirst_exists[of cls x post] by auto
  show ?thesis using 1 2 by blast
qed

lemma jsonMatch_exists:
  "jsonMatch (pre @ ''```json\<newline>'' @ body @ ''\<newline>```'' @ post) \<noteq> None"
proof -
  obtain b a i p where
    "splitAtFirst ''```json\<newline>'' (pre @ ''```json\<newline>'' @ body @ ''\<newline>```'' @ post) = Some (b, a)"
    "splitAtFirst ''\<newline>```'' a = Some (i, p)"
    using splitAtFirst_twice[of "''```json\<newline>''" pre body "''\<newline>```''" post] by blast
  then show ?thesis by (simp add: jsonMatch_def)
qed

lemma eval_prose:
  "JSON_parse ''Solar panels turn light into power.'' = None"
  "jsonMatch ''Solar panels turn light into power.'' = None"
  by code_simp+

lemma eval_broken:
  "JSON_parse ''```json\<newline>{oops\<newline>```'' = None"
  "jsonMatch ''```json\<newline>{oops\<newline>```'' = Some ''{oops''"
  "JSON_parse ''{oops'' = None"
  by code_simp+

lemma eval_both:
  "JSON_parse ''{\"action\":\"generate_image\",\"prompt\":\"a dam\",\"components\":[1],\"connections\":[2]}'' =
     Some (JObject [(''action'', JString ''generate_image''), (''prompt'', JString ''a dam''),
                    (''components'', JArray [JNumber (Num 1)]),
                    (''connections'', JArray [JNumber (Num 2)])])"
  by code_simp

lemma eval_fenced:
  "JSON_parse ''```json\<newline>{\"components\":[1],\"connections\":[2]}\<newline>```'' = None"
  "jsonMatch ''```json\<newline>{\"components\":[1],\"connections\":[2]}\<newline>```'' =
     Some ''{\"components\":[1],\"connections\":[2]}''"
  "JSON_parse ''{\"components\":[1],\"connections\":[2]}'' =
     Some (JObject [(''components'', JArray [JNumber (Num 1)]),
                    (''connections'', JArray [JNumber (Num 2)])])"
  by code_simp+

lemma eval_dispatch_diagram:
  "dispatch s (Some (JObject [(''components'', JArray [JNumber (Num 1)]),
                              (''connections'', JArray [JNumber (Num 2)])])) =
     Diagram (JObject [(''components'', JArray [JNumber (Num 1)]),
                       (''connections'', JArray [JNumber (Num 2)])])"
  by (simp add: dispatch_def getProp_def truthyProp_def)

section \<open>The fallback to plain text\<close>

text \<open>
  C3. When the whole reply does not parse as JSON, and either the reply has no fenced
  block or the text of its fenced block does not parse, the outcome is plain text, and
  the text is the reply itself, unchanged.
\<close>

theorem plain_text_fallback:
  assumes "JSON_parse s = None"
    and "\<forall>inner. jsonMatch s = Some inner \<longrightarrow> JSON_parse inner = None"
  shows "classify s = PlainText s"
  using parsedJson_none[OF assms] by (simp add: classify_def dispatch_def)

text \<open>The theorem at a reply in prose, and at a reply whose fenced block is not JSON.\<close>

theorem plain_text_fallback_witness:
  "classify ''Solar panels turn light into power.'' = PlainText ''Solar panels turn light into power.'' \<and>
   classify ''```json\<newline>{oops\<newline>```'' = PlainText ''```json\<newline>{oops\<newline>```''"
proof -
  have a: "\<forall>inner. jsonMatch ''Solar panels turn light into power.'' = Some inner \<longrightarrow> JSON_parse inner = None"
    by (simp add: eval_prose)
  have b: "\<forall>inner. jsonMatch ''```json\<newline>{oops\<newline>```'' = Some inner \<longrightarrow> JSON_parse inner = None"
    by (simp add: eval_broken)
  show ?thesis
    using plain_text_fallback[OF eval_prose(1) a] plain_text_fallback[OF eval_broken(1) b] by simp
qed

section \<open>Fenced blocks\<close>

text \<open>
  C4, as the code has it. When the whole reply parses, the parsed value alone decides
  the outcome and no fenced block is looked for. When it does not, a fenced block is
  recognized wherever the reply holds the opening delimiter followed by a line feed and,
  later, a line feed followed by the closing delimiter, whatever stands before the
  opening delimiter or after the closing one on their lines; the text that is parsed is
  exactly the text between the first opening delimiter and the first closing delimiter
  after it (an empty text is not parsed).
\<close>

theorem fenced_block_extraction:
  "(JSON_parse s = Some v \<longrightarrow> parsedJson s = Some v \<and> classify s = dispatch s (Some v)) \<and>
   (JSON_parse s = None \<and> jsonMatch s = Some inner \<longrightarrow>
      classify s = dispatch s (if inner \<noteq> [] then JSON_parse inner else None) \<and>
      (\<exists>pre post. s = pre @ ''```json\<newline>'' @ inner @ ''\<newline>```'' @ post \<and>
         (\<forall>pre' r. s = pre' @ ''```json\<newline>'' @ r \<longrightarrow> length pre \<le> length pre') \<and>
         (\<forall>inner' r. inner @ ''\<newline>```'' @ post = inner' @ ''\<newline>```'' @ r \<longrightarrow>
            length inner \<le> length inner'))) \<and>
   jsonMatch (before @ ''```json\<newline>'' @ body @ ''\<newline>```'' @ after) \<noteq> None"
proof (intro conjI impI)
  assume "JSON_parse s = Some v"
  then show "parsedJson s = Some v" by (rule parsedJson_whole)
  then show "classify s = dispatch s (Some v)" by (simp add: classify_def)
next
  assume a: "JSON_parse s = None \<and> jsonMatch s = Some inner"
  then show "classify s = dispatch s (if inner \<noteq> [] then JSON_parse inner else None)"
    by (simp add: classify_def parsedJson_fenced)
  from a have "jsonMatch s = Some inner" ..
  then show "\<exists>pre post. s = pre @ ''```json\<newline>'' @ inner @ ''\<newline>```'' @ post \<and>
         (\<forall>pre' r. s = pre' @ ''```json\<newline>'' @ r \<longrightarrow> length pre \<le> length pre') \<and>
         (\<forall>inner' r. inner @ ''\<newline>```'' @ post = inner' @ ''\<newline>```'' @ r \<longrightarrow>
            length inner \<le> length inner')"
    by (rule jsonMatch_Some)
next
  show "jsonMatch (before @ ''```json\<newline>'' @ body @ ''\<newline>```'' @ after) \<noteq> None"
    by (rule jsonMatch_exists)
qed

text \<open>The theorem at a diagram in a fenced block, and at the same diagram as bare JSON.\<close>

theorem fenced_block_extraction_witness:
  "classify ''```json\<newline>{\"components\":[1],\"connections\":[2]}\<newline>```'' =
     Diagram (JObject [(''components'', JArray [JNumber (Num 1)]),
                       (''connections'', JArray [JNumber (Num 2)])]) \<and>
   classify ''{\"components\":[1],\"connections\":[2]}'' =
     Diagram (JObject [(''components'', JArray [JNumber (Num 1)]),
                       (''connections'', JArray [JNumber (Num 2)])])"
proof -
  have 1: "classify ''```json\<newline>{\"components\":[1],\"connections\":[2]}\<newline>```'' =
     Diagram (JObject [(''components'', JArray [JNumber (Num 1)]),
                       (''connections'', JArray [JNumber (Num 2)])])"
    using fenced_block_extraction[of
        "''```json\<newline>{\"components\":[1],\"connections\":[2]}\<newline>```''" _
        "''{\"components\":[1],\"connections\":[2]}''"]
      eval_fenced eval_dispatch_diagram
    by simp
  have 2: "classify ''{\"components\":[1],\"connections\":[2]}'' =
     Diagram (JObject [(''components'', JArray [JNumber (Num 1)]),
                       (''connections'', JArray [JNumber (Num 2)])])"
    using fenced_block_extraction[of "''{\"components\":[1],\"connections\":[2]}''"
        "JObject [(''components'', JArray [JNumber (Num 1)]),
                  (''connections'', JArray [JNumber (Num 2)])]"]
      eval_fenced(3) eval_dispatch_diagram
    by simp
  from 1 2 show ?thesis ..
qed

text \<open>
  C4 as stated fails for a reply with prose before the opening delimiter and after the
  closing one: no line of it is the opening delimiter alone, and the block is
  recognized and rendered.
\<close>

theorem fence_inside_a_line_is_recognized:
  "\<not> spec_fenced_lines ''Diagram: ```json\<newline>{\"components\":[1],\"connections\":[2]}\<newline>``` end'' \<and>
   JSON_parse ''Diagram: ```json\<newline>{\"components\":[1],\"connections\":[2]}\<newline>``` end'' = None \<and>
   jsonMatch ''Diagram: ```json\<newline>{\"components\":[1],\"connections\":[2]}\<newline>``` end'' =
     Some ''{\"components\":[1],\"connections\":[2]}'' \<and>
   classify ''Diagram: ```json\<newline>{\"components\":[1],\"connections\":[2]}\<newline>``` end'' =
     Diagram (JObject [(''components'', JArray [JNumber (Num 1)]),
                       (''connections'', JArray [JNumber (Num 2)])])"
  by code_simp

section \<open>Image directives\<close>

text \<open>
  C5, as the code has it. A reply that parses as a whole to a value whose \<^verbatim>\<open>action\<close> is
  the string \<^verbatim>\<open>generate_image\<close> and whose \<^verbatim>\<open>prompt\<close> is a string that is not empty is an
  image directive carrying that prompt, whether or not the value also has \<^verbatim>\<open>components\<close>
  and \<^verbatim>\<open>connections\<close>; the reply of the specification's first scenario is the
  directive for \<^verbatim>\<open>a red barn\<close>.
\<close>

theorem image_directive_first:
  "(JSON_parse s = Some v \<and> getProp v ''action'' = Some (JString ''generate_image'') \<and>
    getProp v ''prompt'' = Some (JString p) \<and> p \<noteq> [] \<longrightarrow>
      classify s = ImageDirective (JString p)) \<and>
   classify ''{\"action\":\"generate_image\",\"prompt\":\"a red barn\"}'' =
     ImageDirective (JString ''a red barn'')"
proof
  show "JSON_parse s = Some v \<and> getProp v ''action'' = Some (JString ''generate_image'') \<and>
    getProp v ''prompt'' = Some (JString p) \<and> p \<noteq> [] \<longrightarrow>
      classify s = ImageDirective (JString p)"
  proof
    assume a: "JSON_parse s = Some v \<and> getProp v ''action'' = Some (JString ''generate_image'') \<and>
      getProp v ''prompt'' = Some (JString p) \<and> p \<noteq> []"
    then have "truthy v" using getProp_truthy by blast
    with a show "classify s = ImageDirective (JString p)"
      by (simp add: classify_def parsedJson_whole dispatch_def truthyProp_def)
  qed
  show "classify ''{\"action\":\"generate_image\",\"prompt\":\"a red barn\"}'' =
     ImageDirective (JString ''a red barn'')"
    by code_simp
qed

text \<open>The theorem at a reply that has the members of a directive and of a diagram.\<close>

theorem image_directive_first_witness:
  "classify ''{\"action\":\"generate_image\",\"prompt\":\"a dam\",\"components\":[1],\"connections\":[2]}'' =
     ImageDirective (JString ''a dam'')"
  using image_directive_first[of
      "''{\"action\":\"generate_image\",\"prompt\":\"a dam\",\"components\":[1],\"connections\":[2]}''"
      "JObject [(''action'', JString ''generate_image''), (''prompt'', JString ''a dam''),
                    (''components'', JArray [JNumber (Num 1)]),
                    (''connections'', JArray [JNumber (Num 2)])]" "''a dam''"]
    eval_both
  by (simp add: getProp_def)

text \<open>
  C5 as stated fails for the empty prompt: the reply has the shape of a directive, and
  the condition \<^verbatim>\<open>parsedJson.prompt\<close> is false for the empty string, so the reply is
  shown as text.
\<close>

theorem empty_prompt_is_plain_text:
  "JSON_parse ''{\"action\":\"generate_image\",\"prompt\":\"\"}'' =
     Some (JObject [(''action'', JString ''generate_image''), (''prompt'', JString [])]) \<and>
   classify ''{\"action\":\"generate_image\",\"prompt\":\"\"}'' =
     PlainText ''{\"action\":\"generate_image\",\"prompt\":\"\"}''"
  by code_simp

end
